theory Spec2Isabelle
  imports Main "HOL-Library.Sublist" "HOL-Library.Extended_Nat"
begin

section \<open>Data model\<close>

text \<open>
  The orchestration core of the repository is the class \<open>AIManager\<close> together with the
  base class \<open>AIProvider\<close> and the four adapters. JavaScript values are untyped; the model
  fixes the shapes the code creates and reads.

  A JavaScript value that travels through the core opaquely (tool arguments, handler
  results) is kept by what the core observes of it: whether it is a string, whether it
  is \<open>undefined\<close>/\<open>null\<close>, and otherwise its \<open>String(v)\<close> rendering, what
  \<open>JSON.stringify(v, null, 2)\<close> does with it (a text, \<open>undefined\<close>, or a \<open>TypeError\<close> with
  a message) and whether it is truthy. Values on which \<open>String\<close> itself throws (a symbol,
  an object without prototype) are outside the model.
\<close>

datatype stringified = Json string | JsonUndefined | JsonThrows string

datatype jsval =
    JUndefined
  | JNull
  | JString string
  | JOther (as_String: string) (as_JSON2: stringified) (is_truthy: bool)

fun js_String :: "jsval \<Rightarrow> string" where
  "js_String JUndefined = ''undefined''"
| "js_String JNull = ''null''"
| "js_String (JString s) = s"
| "js_String (JOther s j t) = s"

text \<open>Truthiness, as \<open>||\<close> and \<open>?:\<close> test it.\<close>

fun js_truthy :: "jsval \<Rightarrow> bool" where
  "js_truthy JUndefined = False"
| "js_truthy JNull = False"
| "js_truthy (JString s) = (s \<noteq> [])"
| "js_truthy (JOther s j t) = t"

datatype role = System | User | Assistant

text \<open>
  Content blocks: \<open>{type:'text', text, metadata?:{toolSummary:true}}\<close>,
  \<open>{type:'tool_use', id, name, input}\<close> and
  \<open>{type:'tool_result', tool_use_id, content, is_error?, name?}\<close>.
  Identifiers and names are strings; the empty string is the falsy one.
\<close>

datatype block =
    TextBlock (tb_text: string) (toolSummaryFlag: bool)
  | ToolUse (tu_id: string) (tu_name: string) (tu_input: jsval)
  | ToolResult (tool_use_id: string) (tr_content: string) (is_error: bool) (tr_name: string)

datatype content = Str string | Blocks "block list"

text \<open>
  The \<open>_id\<close> field of a message: a finite number (whole, as the data model has it), a
  string, an infinite number (\<open>InfId True\<close> is \<open>Infinity\<close>), or anything else: absent,
  \<open>NaN\<close>, a value of another type.
\<close>

datatype msg_id = NoId | NumId int | StrId string | InfId bool

text \<open>The numbers the id counter takes: whole, or infinite.\<close>

datatype idnum = Fin int | PosInf | NegInf

record summary_info =
  successCount :: nat
  failureCount :: nat
  successNames :: "string list"
  failureNames :: "string list"

text \<open>
  \<open>metadata.toolSummary\<close> and \<open>metadata.summaryInfo\<close> are only ever written together
  (part_001, lines 931-934), so they are one optional field: \<open>md_summary = Some info\<close>
  stands for \<open>toolSummary: true, summaryInfo: info\<close>.
\<close>

record metadata =
  toolCallIds :: "string list option"
  md_summary :: "summary_info option"
  md_summaryToolIds :: "string list option"

text \<open>
  A message. The last three fields exist only on messages built by the projection
  (\<open>getHistoryView\<close>); \<open>None\<close> stands for an absent (or \<open>null\<close>) field.
\<close>

record message =
  msg_id :: msg_id
  role :: role
  content :: content
  metadata :: "metadata option"
  hasNonSummaryText :: "bool option"
  summaryInfo :: "summary_info option"
  summaryToolIds :: "string list option"

definition mk_message :: "role \<Rightarrow> content \<Rightarrow> message" where
  "mk_message r c =
     \<lparr>msg_id = NoId, role = r, content = c, metadata = None,
      hasNonSummaryText = None, summaryInfo = None, summaryToolIds = None\<rparr>"

record tool_call =
  call_id :: string
  call_name :: string
  call_arguments :: jsval

text \<open>What \<open>parseResponse\<close> hands to the loop: the text and the tool calls.\<close>

record response =
  r_content :: string
  r_toolCalls :: "tool_call list"

text \<open>
  A handler is an asynchronous function of the arguments that returns a value or throws
  (rejects); it may change the world outside the core (files, tabs), which is the type
  parameter \<open>'w\<close>. Of a thrown value the core reads \<open>error.message\<close> into a template
  string: \<open>Threw msg\<close> is a thrown value for which that gives the text \<open>msg\<close> (an \<open>Error\<close>
  with this message; \<open>"undefined"\<close> for a value without the property), \<open>ThrewNullish\<close> is
  \<open>null\<close> or \<open>undefined\<close> thrown, on which the read itself throws a \<open>TypeError\<close>.
\<close>

datatype outcome = Returned jsval | Threw string | ThrewNullish

record 'w tool =
  tool_name :: string
  handler :: "jsval \<Rightarrow> 'w \<Rightarrow> outcome \<times> 'w"

text \<open>One entry of the array returned by \<open>executeToolCalls\<close>.\<close>

record tool_result =
  res_id :: string
  res_result :: jsval
  res_isError :: bool

text \<open>
  What happens outside the core, in order: a call of the provider (the message list it
  was given and what it answered), a call of a tool handler by \<open>executeToolCalls\<close> (the
  tool's name, the arguments and what the handler did), and the call of the
  \<open>code_summary\<close> handler by \<open>buildAugmentedPrompt\<close>.
\<close>

datatype event =
    CallAPI "message list" "string + response"
  | RunHandler string jsval outcome
  | RunSummary outcome

text \<open>
  The provider: \<open>callAPI\<close> resolves to a response or rejects with an error message, and
  has a state of its own (type \<open>'p\<close>: the remote model, a stub's script).
\<close>

type_synonym 'p callAPI = "'p \<Rightarrow> message list \<Rightarrow> (string + response) \<times> 'p"

record ('w, 'p) manager =
  provider :: "'p callAPI option"
  tools :: "'w tool list"
  conversationHistory :: "message list"
  systemPrompt :: "string option"
  messageIdCounter :: idnum
  world :: 'w
  pstate :: 'p
  trace :: "event list"

definition new_manager :: "'w \<Rightarrow> 'p \<Rightarrow> ('w, 'p) manager" where
  "new_manager w p =
     \<lparr>provider = None, tools = [], conversationHistory = [], systemPrompt = None,
      messageIdCounter = Fin 0, world = w, pstate = p, trace = []\<rparr>"

section \<open>Registration\<close>

definition registerProvider :: "'p callAPI \<Rightarrow> ('w, 'p) manager \<Rightarrow> ('w, 'p) manager" where
  "registerProvider api m = (if provider m = None then m\<lparr>provider := Some api\<rparr> else m)"

definition registerTool ::
  "string \<Rightarrow> (jsval \<Rightarrow> 'w \<Rightarrow> outcome \<times> 'w) \<Rightarrow> ('w, 'p) manager \<Rightarrow> ('w, 'p) manager" where
  "registerTool n h m = m\<lparr>tools := tools m @ [\<lparr>tool_name = n, handler = h\<rparr>]\<rparr>"

definition setSystemPrompt :: "string \<Rightarrow> ('w, 'p) manager \<Rightarrow> ('w, 'p) manager" where
  "setSystemPrompt p m = m\<lparr>systemPrompt := Some p\<rparr>"

definition clearHistory :: "('w, 'p) manager \<Rightarrow> ('w, 'p) manager" where
  "clearHistory m = m\<lparr>conversationHistory := [], messageIdCounter := Fin 0\<rparr>"

section \<open>Message ids\<close>

text \<open>
  JavaScript numbers are IEEE doubles. The ids and the counter are whole numbers (the
  data model has an id an integer), so \<open>counter += 1\<close> is the sum rounded to the nearest
  double, the tie going to the even mantissa: exact up to \<open>2^53\<close>, and from there on
  without effect on a counter whose mantissa is even. \<open>round53\<close> rounds a number that is
  not negative to 53 significant bits; a magnitude that rounds to \<open>2^1024\<close> or more is infinite.
\<close>

fun bit_length :: "int \<Rightarrow> nat" where
  "bit_length n = (if n \<le> 0 then 0 else Suc (bit_length (n div 2)))"

declare bit_length.simps [simp del]

definition round53 :: "int \<Rightarrow> int" where
  "round53 n =
     (if n \<le> 2 ^ 53 then n
      else (let e = bit_length n - 53;
                q = n div 2 ^ e;
                r = n mod 2 ^ e
            in (if 2 ^ e < 2 * r \<or> (2 * r = 2 ^ e \<and> odd q) then q + 1 else q) * 2 ^ e))"

definition to_double :: "int \<Rightarrow> idnum" where
  "to_double n =
     (let r = round53 \<bar>n\<bar>
      in if 2 ^ 1024 \<le> r then (if n < 0 then NegInf else PosInf)
         else Fin (if n < 0 then - r else r))"

text \<open>\<open>a > b\<close> and \<open>a + 1\<close> on these numbers.\<close>

fun greater :: "idnum \<Rightarrow> idnum \<Rightarrow> bool" where
  "greater (Fin a) (Fin b) = (b < a)"
| "greater PosInf b = (b \<noteq> PosInf)"
| "greater (Fin a) PosInf = False"
| "greater (Fin a) NegInf = True"
| "greater NegInf b = False"

fun increment :: "idnum \<Rightarrow> idnum" where
  "increment (Fin n) = to_double (n + 1)"
| "increment PosInf = PosInf"
| "increment NegInf = NegInf"

fun id_of :: "idnum \<Rightarrow> msg_id" where
  "id_of (Fin n) = NumId n"
| "id_of PosInf = InfId True"
| "id_of NegInf = InfId False"

text \<open>
  Strings are kept as their UTF-8 bytes. The white space that \<open>trimStart\<close>, \<open>trimEnd\<close> and
  \<open>parseInt\<close> skip (\<open>WhiteSpace\<close> and \<open>LineTerminator\<close> of the language): U+0009 to U+000D,
  U+0020, U+00A0, U+1680, U+2000 to U+200A, U+2028, U+2029, U+202F, U+205F, U+3000 and
  U+FEFF.
\<close>

definition white_space :: "string list" where
  "white_space =
     [[CHR 0x09], [CHR 0x0A], [CHR 0x0B], [CHR 0x0C], [CHR 0x0D], [CHR 0x20],
      [CHR 0xC2, CHR 0xA0], [CHR 0xE1, CHR 0x9A, CHR 0x80],
      [CHR 0xE2, CHR 0x80, CHR 0x80], [CHR 0xE2, CHR 0x80, CHR 0x81],
      [CHR 0xE2, CHR 0x80, CHR 0x82], [CHR 0xE2, CHR 0x80, CHR 0x83],
      [CHR 0xE2, CHR 0x80, CHR 0x84], [CHR 0xE2, CHR 0x80, CHR 0x85],
      [CHR 0xE2, CHR 0x80, CHR 0x86], [CHR 0xE2, CHR 0x80, CHR 0x87],
      [CHR 0xE2, CHR 0x80, CHR 0x88], [CHR 0xE2, CHR 0x80, CHR 0x89],
      [CHR 0xE2, CHR 0x80, CHR 0x8A], [CHR 0xE2, CHR 0x80, CHR 0xA8],
      [CHR 0xE2, CHR 0x80, CHR 0xA9], [CHR 0xE2, CHR 0x80, CHR 0xAF],
      [CHR 0xE2, CHR 0x81, CHR 0x9F], [CHR 0xE3, CHR 0x80, CHR 0x80],
      [CHR 0xEF, CHR 0xBB, CHR 0xBF]]"

lemma white_space_nonempty: "ws \<in> set white_space \<Longrightarrow> ws \<noteq> []"
  by (auto simp: white_space_def)

lemma find_prefix_shorter:
  assumes "find (\<lambda>ws. prefix ws s) white_space = Some ws"
  shows "length s - length ws < length s"
proof -
  from assms have "ws \<in> set white_space" "prefix ws s" by (auto simp: find_Some_iff)
  with white_space_nonempty[of ws] show ?thesis by (cases s) (auto simp: prefix_def)
qed

lemma find_suffix_shorter:
  assumes "find (\<lambda>ws. suffix ws s) white_space = Some ws"
  shows "length s - length ws < length s"
proof -
  from assms have "ws \<in> set white_space" "suffix ws s" by (auto simp: find_Some_iff)
  with white_space_nonempty[of ws] show ?thesis by (auto simp: suffix_def)
qed

function trimStart :: "string \<Rightarrow> string" where
  "trimStart s =
     (case find (\<lambda>ws. prefix ws s) white_space of
        Some ws \<Rightarrow> trimStart (drop (length ws) s)
      | None \<Rightarrow> s)"
  by pat_completeness auto

termination trimStart
  by (relation "measure length") (simp_all add: find_prefix_shorter)

declare trimStart.simps [simp del]

function trimEnd :: "string \<Rightarrow> string" where
  "trimEnd s =
     (case find (\<lambda>ws. suffix ws s) white_space of
        Some ws \<Rightarrow> trimEnd (take (length s - length ws) s)
      | None \<Rightarrow> s)"
  by pat_completeness auto

termination trimEnd
  by (relation "measure length") (simp_all add: find_suffix_shorter)

declare trimEnd.simps [simp del]

text \<open>
  \<open>parseInt(s, 10)\<close>: leading white space, an optional sign, then decimal digits; the
  number they denote rounded to a double. \<open>None\<close> is \<open>NaN\<close>. (The language lets an
  implementation read the digits after the twentieth as zeros; this is the exact value.)
\<close>

definition is_digit :: "char \<Rightarrow> bool" where
  "is_digit c = ((48::int) \<le> of_char c \<and> of_char c \<le> (57::int))"

definition digits_value :: "string \<Rightarrow> int" where
  "digits_value ds = foldl (\<lambda>acc c. 10 * acc + (of_char c - 48)) 0 ds"

definition parseInt :: "string \<Rightarrow> idnum option" where
  "parseInt s =
     (let t = trimStart s;
          neg = (t \<noteq> [] \<and> hd t = CHR ''-'');
          u = (if t \<noteq> [] \<and> (hd t = CHR ''-'' \<or> hd t = CHR ''+'') then tl t else t);
          ds = takeWhile is_digit u
      in if ds = [] then None
         else Some (to_double (if neg then - digits_value ds else digits_value ds)))"

text \<open>
  \<open>ensureMessageId(message)\<close> mutates the message and the counter; the model returns
  both. \<open>freshId\<close> is its last two lines.
\<close>

definition freshId :: "message \<Rightarrow> idnum \<Rightarrow> message \<times> idnum" where
  "freshId msg counter = (msg\<lparr>msg_id := id_of (increment counter)\<rparr>, increment counter)"

definition ensureMessageId :: "message \<Rightarrow> idnum \<Rightarrow> message \<times> idnum" where
  "ensureMessageId msg counter =
     (case msg_id msg of
        NumId existingId \<Rightarrow>
          (msg, if greater (Fin existingId) counter then Fin existingId else counter)
      | StrId s \<Rightarrow>
          (case parseInt s of
             Some parsed \<Rightarrow>
               (msg\<lparr>msg_id := id_of parsed\<rparr>, if greater parsed counter then parsed else counter)
           | None \<Rightarrow> freshId msg counter)
      | InfId positive \<Rightarrow> freshId msg counter
      | NoId \<Rightarrow> freshId msg counter)"

fun ensureIds :: "message list \<Rightarrow> idnum \<Rightarrow> message list \<times> idnum" where
  "ensureIds [] counter = ([], counter)"
| "ensureIds (entry # rest) counter =
     (let (entry', counter') = ensureMessageId entry counter;
          (rest', counter'') = ensureIds rest counter'
      in (entry' # rest', counter''))"

definition ensureHistoryMessageIds :: "('w, 'p) manager \<Rightarrow> ('w, 'p) manager" where
  "ensureHistoryMessageIds m =
     (let (h, c) = ensureIds (conversationHistory m) (messageIdCounter m)
      in m\<lparr>conversationHistory := h, messageIdCounter := c\<rparr>)"

definition addMessage :: "role \<Rightarrow> content \<Rightarrow> ('w, 'p) manager \<Rightarrow> ('w, 'p) manager" where
  "addMessage r c m =
     (let (message, counter) = ensureMessageId (mk_message r c) (messageIdCounter m)
      in m\<lparr>conversationHistory := conversationHistory m @ [message],
            messageIdCounter := counter\<rparr>)"

section \<open>Executing tool calls\<close>

text \<open>
  \<open>AIProvider.executeToolCalls\<close> (inherited by every adapter): the calls one after the
  other, each looked up by name among the registered tools. The \<open>catch\<close> block reads
  \<open>error.message\<close>; when the handler has rejected with \<open>null\<close> or \<open>undefined\<close> that read
  throws, and \<open>executeToolCalls\<close> rejects with what was gathered so far lost.
\<close>

definition find_tool :: "'w tool list \<Rightarrow> string \<Rightarrow> 'w tool option" where
  "find_tool ts n = find (\<lambda>t. tool_name t = n) ts"

definition executeToolCall ::
  "tool_call \<Rightarrow> 'w tool list \<Rightarrow> 'w \<Rightarrow> (string + tool_result) \<times> 'w \<times> event list" where
  "executeToolCall call availableTools w =
     (case find_tool availableTools (call_name call) of
        Some tool \<Rightarrow>
          (case handler tool (call_arguments call) w of
             (Returned result, w') \<Rightarrow>
               (Inr \<lparr>res_id = call_id call, res_result = result, res_isError = False\<rparr>,
                w', [RunHandler (call_name call) (call_arguments call) (Returned result)])
           | (Threw msg, w') \<Rightarrow>
               (Inr \<lparr>res_id = call_id call, res_result = JString (''Error: '' @ msg),
                     res_isError = True\<rparr>,
                w', [RunHandler (call_name call) (call_arguments call) (Threw msg)])
           | (ThrewNullish, w') \<Rightarrow>
               (Inl ''TypeError: cannot read properties of null (reading message)'',
                w', [RunHandler (call_name call) (call_arguments call) ThrewNullish]))
      | None \<Rightarrow>
          (Inr \<lparr>res_id = call_id call,
                res_result = JString (''Unknown tool: '' @ call_name call),
                res_isError = True\<rparr>, w, []))"

fun executeToolCalls ::
  "tool_call list \<Rightarrow> 'w tool list \<Rightarrow> 'w \<Rightarrow> (string + tool_result list) \<times> 'w \<times> event list" where
  "executeToolCalls [] availableTools w = (Inr [], w, [])"
| "executeToolCalls (call # rest) availableTools w =
     (case executeToolCall call availableTools w of
        (Inl err, w', evs) \<Rightarrow> (Inl err, w', evs)
      | (Inr result, w', evs) \<Rightarrow>
          (case executeToolCalls rest availableTools w' of
             (Inl err, w'', evs') \<Rightarrow> (Inl err, w'', evs @ evs')
           | (Inr results, w'', evs') \<Rightarrow> (Inr (result # results), w'', evs @ evs')))"

section \<open>The history projection\<close>

fun is_Str :: "content \<Rightarrow> bool" where
  "is_Str (Str s) = True"
| "is_Str (Blocks ps) = False"

fun blocks_of :: "content \<Rightarrow> block list" where
  "blocks_of (Blocks ps) = ps"
| "blocks_of (Str s) = []"

fun is_ToolUse :: "block \<Rightarrow> bool" where
  "is_ToolUse (ToolUse i n a) = True"
| "is_ToolUse b = False"

fun is_ToolResult :: "block \<Rightarrow> bool" where
  "is_ToolResult (ToolResult i c e n) = True"
| "is_ToolResult b = False"

text \<open>\<open>entry.role === 'user' && typeof entry.content === 'string'\<close>\<close>

definition is_user_text :: "message \<Rightarrow> bool" where
  "is_user_text entry = (role entry = User \<and> is_Str (content entry))"

text \<open>
  \<open>entry.role === 'assistant' && Array.isArray(entry.content) &&
  entry.content.some(part => part.type === 'tool_use')\<close>
\<close>

definition is_tool_bearing :: "message \<Rightarrow> bool" where
  "is_tool_bearing entry =
     (role entry = Assistant \<and> \<not> is_Str (content entry) \<and>
      list_ex is_ToolUse (blocks_of (content entry)))"

text \<open>
  The loops \<open>for (let i = xs.length - 1; i >= 0; i--)\<close> are recursions on \<open>i + 1\<close>;
  \<open>None\<close> is the result \<open>-1\<close>.
\<close>

fun findLatestUserTextScan :: "message list \<Rightarrow> nat \<Rightarrow> nat option" where
  "findLatestUserTextScan messages 0 = None"
| "findLatestUserTextScan messages (Suc i) =
     (if is_user_text (messages ! i) then Some i else findLatestUserTextScan messages i)"

definition findLatestUserTextMessageIndex :: "message list \<Rightarrow> nat option" where
  "findLatestUserTextMessageIndex messages = findLatestUserTextScan messages (length messages)"

fun findLastToolScan :: "message list \<Rightarrow> nat \<Rightarrow> nat option" where
  "findLastToolScan history 0 = None"
| "findLastToolScan history (Suc i) =
     (if is_tool_bearing (history ! i) then Some i else findLastToolScan history i)"

definition findLastToolInteractionIndex :: "message list \<Rightarrow> nat option" where
  "findLastToolInteractionIndex history = findLastToolScan history (length history)"

fun sliceScan :: "message list \<Rightarrow> int \<Rightarrow> int \<Rightarrow> nat \<Rightarrow> nat option" where
  "sliceScan history limit userMessagesSeen 0 = None"
| "sliceScan history limit userMessagesSeen (Suc i) =
     (if is_user_text (history ! i)
      then (if userMessagesSeen + 1 = limit then Some i
            else sliceScan history limit (userMessagesSeen + 1) i)
      else sliceScan history limit userMessagesSeen i)"

definition sliceHistoryByUserMessages :: "int \<Rightarrow> message list \<Rightarrow> message list" where
  "sliceHistoryByUserMessages limit history =
     (if limit \<le> 0 then history
      else (case sliceScan history limit 0 (length history) of
              Some i \<Rightarrow> drop i history
            | None \<Rightarrow> history))"

text \<open>
  An entry of the map \<open>toolInfo\<close>: \<open>{name, id, isError}\<close>; an absent name or id is the
  empty string, an absent \<open>isError\<close> is \<open>False\<close> (it is only read as \<open>!!meta.isError\<close>).
\<close>

record tool_meta =
  tm_name :: string
  tm_id :: string
  tm_isError :: bool

definition buildToolBatchSummary :: "tool_meta list \<Rightarrow> summary_info" where
  "buildToolBatchSummary toolMetas =
     foldl (\<lambda>summary meta.
              if tm_isError meta
              then summary\<lparr>failureCount := failureCount summary + 1,
                           failureNames := (if tm_name meta \<noteq> [] then failureNames summary @ [tm_name meta]
                                            else failureNames summary)\<rparr>
              else summary\<lparr>successCount := successCount summary + 1,
                           successNames := (if tm_name meta \<noteq> [] then successNames summary @ [tm_name meta]
                                            else successNames summary)\<rparr>)
       \<lparr>successCount = 0, failureCount = 0, successNames = [], failureNames = []\<rparr> toolMetas"

text \<open>Decimal rendering of a number in a template literal.\<close>

fun digit_char :: "nat \<Rightarrow> char" where
  "digit_char n = char_of (48 + n)"

fun show_nat :: "nat \<Rightarrow> string" where
  "show_nat n = (if n < 10 then [digit_char n] else show_nat (n div 10) @ [digit_char (n mod 10)])"

definition show_int :: "int \<Rightarrow> string" where
  "show_int i = (if i < 0 then CHR ''-'' # show_nat (nat (- i)) else show_nat (nat i))"

text \<open>\<open>names.join(', ')\<close>\<close>

fun join_comma :: "string list \<Rightarrow> string" where
  "join_comma [] = []"
| "join_comma [x] = x"
| "join_comma (x # y # ys) = x @ '', '' @ join_comma (y # ys)"

text \<open>\<open>names.find(Boolean) || 'tool'\<close>\<close>

definition first_name :: "string list \<Rightarrow> string" where
  "first_name names = (case find (\<lambda>n. n \<noteq> []) names of Some n \<Rightarrow> n | None \<Rightarrow> ''tool'')"

definition buildToolSummaryText :: "summary_info \<Rightarrow> string list" where
  "buildToolSummaryText info =
     (if successCount info > 0
      then (if successCount info = 1
            then [''Successfully called tool '' @ first_name (successNames info)]
            else [''Successfully called '' @ show_nat (successCount info) @ '' tools''])
      else []) @
     (if failureCount info > 0
      then (if failureCount info = 1
            then [''Tool '' @ first_name (failureNames info) @ '' failed'']
            else [''Failed '' @ show_nat (failureCount info) @ '' tools'' @
                  (if failureNames info \<noteq> []
                   then '' ('' @ join_comma (failureNames info) @ '')''
                   else [])])
      else [])"

definition cloneSummaryInfo :: "summary_info \<Rightarrow> summary_info" where
  "cloneSummaryInfo info =
     \<lparr>successCount = successCount info, failureCount = failureCount info,
      successNames = successNames info, failureNames = failureNames info\<rparr>"

definition add_info :: "summary_info \<Rightarrow> summary_info \<Rightarrow> summary_info" where
  "add_info a b =
     a\<lparr>successCount := successCount a + successCount b,
       failureCount := failureCount a + failureCount b,
       successNames := successNames a @ successNames b,
       failureNames := failureNames a @ failureNames b\<rparr>"

text \<open>\<open>[...new Set(ids)]\<close>: the first occurrence of each id, in order.\<close>

fun uniq_from :: "string list \<Rightarrow> string list \<Rightarrow> string list" where
  "uniq_from seen [] = []"
| "uniq_from seen (x # xs) =
     (if x \<in> set seen then uniq_from seen xs else x # uniq_from (seen @ [x]) xs)"

definition uniq :: "string list \<Rightarrow> string list" where
  "uniq xs = uniq_from [] xs"

text \<open>The first pass of \<open>getHistoryView\<close> (lines 823-846): the map \<open>toolInfo\<close>.\<close>

fun toolInfo_part_assistant :: "(string \<rightharpoonup> tool_meta) \<Rightarrow> block \<Rightarrow> (string \<rightharpoonup> tool_meta)" where
  "toolInfo_part_assistant toolInfo (ToolUse i n a) =
     toolInfo(i \<mapsto> \<lparr>tm_name = n, tm_id = i, tm_isError = False\<rparr>)"
| "toolInfo_part_assistant toolInfo part = toolInfo"

fun toolInfo_part_user :: "(string \<rightharpoonup> tool_meta) \<Rightarrow> block \<Rightarrow> (string \<rightharpoonup> tool_meta)" where
  "toolInfo_part_user toolInfo (ToolResult i c e n) =
     (if i \<noteq> []
      then (let entry = (case toolInfo i of Some x \<Rightarrow> x
                         | None \<Rightarrow> \<lparr>tm_name = [], tm_id = [], tm_isError = False\<rparr>);
                entry1 = entry\<lparr>tm_isError := e\<rparr>;
                entry2 = (if tm_name entry1 = [] \<and> n \<noteq> [] then entry1\<lparr>tm_name := n\<rparr> else entry1);
                entry3 = (if tm_id entry2 = [] then entry2\<lparr>tm_id := i\<rparr> else entry2)
            in toolInfo(i \<mapsto> entry3))
      else toolInfo)"
| "toolInfo_part_user toolInfo part = toolInfo"

definition toolInfo_msg :: "(string \<rightharpoonup> tool_meta) \<Rightarrow> message \<Rightarrow> (string \<rightharpoonup> tool_meta)" where
  "toolInfo_msg toolInfo msg =
     (if role msg = Assistant \<and> \<not> is_Str (content msg)
      then foldl toolInfo_part_assistant toolInfo (blocks_of (content msg))
      else if role msg = User \<and> \<not> is_Str (content msg)
      then foldl toolInfo_part_user toolInfo (blocks_of (content msg))
      else toolInfo)"

definition build_toolInfo :: "message list \<Rightarrow> (string \<rightharpoonup> tool_meta)" where
  "build_toolInfo history = foldl toolInfo_msg Map.empty history"

text \<open>
  The closure \<open>appendBatch\<close> (lines 878-905) on the message under construction; the
  caller empties \<open>pendingToolBatch\<close>.
\<close>

definition appendBatch :: "tool_meta list \<Rightarrow> message \<Rightarrow> message" where
  "appendBatch pendingToolBatch transformed =
     (if pendingToolBatch = [] then transformed
      else (let batchInfo = buildToolBatchSummary pendingToolBatch;
                info = (case summaryInfo transformed of
                          Some x \<Rightarrow> x
                        | None \<Rightarrow> \<lparr>successCount = 0, failureCount = 0,
                                    successNames = [], failureNames = []\<rparr>);
                batchIds = filter (\<lambda>i. i \<noteq> []) (map tm_id pendingToolBatch)
            in transformed
                 \<lparr>summaryInfo := Some (add_info info batchInfo),
                  summaryToolIds :=
                    (if batchIds \<noteq> []
                     then Some ((case summaryToolIds transformed of Some ids \<Rightarrow> ids | None \<Rightarrow> [])
                                @ batchIds)
                     else summaryToolIds transformed)\<rparr>))"

text \<open>
  The loop over the parts of an assistant message (lines 907-919). An entry found in
  \<open>toolInfo\<close> already carries its key as id, so the assignment \<open>meta.id = part.id\<close>
  changes no stored entry.
\<close>

fun transformPart ::
  "(string \<rightharpoonup> tool_meta) \<Rightarrow> message \<times> tool_meta list \<Rightarrow> block \<Rightarrow> message \<times> tool_meta list" where
  "transformPart toolInfo (transformed, pendingToolBatch) (TextBlock t f) =
     (let transformed1 = appendBatch pendingToolBatch transformed
      in (transformed1\<lparr>content := Blocks (blocks_of (content transformed1) @ [TextBlock t False]),
                       hasNonSummaryText := Some True\<rparr>, []))"
| "transformPart toolInfo (transformed, pendingToolBatch) (ToolUse i n a) =
     (let meta = (case toolInfo i of Some x \<Rightarrow> x
                  | None \<Rightarrow> \<lparr>tm_name = n, tm_id = i, tm_isError = False\<rparr>);
          meta1 = (if tm_id meta = [] then meta\<lparr>tm_id := i\<rparr> else meta)
      in (transformed, pendingToolBatch @ [meta1]))"
| "transformPart toolInfo (transformed, pendingToolBatch) (ToolResult i c e n) =
     (transformed, pendingToolBatch)"

definition summary_blocks :: "summary_info \<Rightarrow> block list" where
  "summary_blocks info = map (\<lambda>t. TextBlock t True) (buildToolSummaryText info)"

definition has_toolSummary :: "message \<Rightarrow> bool" where
  "has_toolSummary msg = (case metadata msg of Some md \<Rightarrow> md_summary md \<noteq> None | None \<Rightarrow> False)"

text \<open>Lines 954-963: the message is kept when it has content.\<close>

definition push_transformed :: "message \<Rightarrow> message list \<Rightarrow> message list" where
  "push_transformed transformed abridged =
     (if blocks_of (content transformed) \<noteq> []
      then (let t1 = transformed\<lparr>hasNonSummaryText := Some (hasNonSummaryText transformed = Some True)\<rparr>;
                t2 = (if has_toolSummary t1
                      then (let t3 = t1\<lparr>hasNonSummaryText := Some False\<rparr>
                            in (case (summaryToolIds t3, metadata t3) of
                                  (Some ids, Some md) \<Rightarrow>
                                    (if ids \<noteq> [] \<and> md_summaryToolIds md = None
                                     then t3\<lparr>metadata := Some (md\<lparr>md_summaryToolIds := Some (uniq ids)\<rparr>)\<rparr>
                                     else t3)
                                | _ \<Rightarrow> t3))
                      else t1)
            in abridged @ [t2])
      else abridged)"

text \<open>Lines 939-950: the summary is folded into the preceding summary-only message.\<close>

definition merge_into_prev :: "message \<Rightarrow> metadata \<Rightarrow> summary_info \<Rightarrow> summary_info \<Rightarrow> message" where
  "merge_into_prev prev md prevInfo summaryMeta =
     (let prevInfo1 = add_info prevInfo summaryMeta
      in prev\<lparr>content := Blocks (summary_blocks prevInfo1),
              metadata := Some (md\<lparr>md_summary := Some prevInfo1\<rparr>),
              hasNonSummaryText := Some False\<rparr>)"

text \<open>
  Lines 930-937: the metadata of a summary-only message
  (\<open>Object.assign({}, transformed.metadata, {toolSummary: true, summaryInfo})\<close>, then the
  ids of the summarized calls).
\<close>

definition withSummaryMetadata :: "message \<Rightarrow> summary_info \<Rightarrow> message" where
  "withSummaryMetadata transformed summaryMeta =
     (let md0 = (case metadata transformed of
                   Some md \<Rightarrow> md\<lparr>md_summary := Some summaryMeta\<rparr>
                 | None \<Rightarrow> \<lparr>toolCallIds = None, md_summary = Some summaryMeta,
                             md_summaryToolIds = None\<rparr>);
          md1 = (case summaryToolIds transformed of
                   Some ids \<Rightarrow> (if ids \<noteq> [] then md0\<lparr>md_summaryToolIds := Some (uniq ids)\<rparr> else md0)
                 | None \<Rightarrow> md0)
      in transformed\<lparr>metadata := Some md1\<rparr>)"

text \<open>
  Lines 938-950 and the fall-through to 954-963: the summary-only message is folded into
  the last message of the view when that is a summary-only message, and pushed otherwise.
\<close>

definition mergeOrPush :: "message \<Rightarrow> summary_info \<Rightarrow> message list \<Rightarrow> message list" where
  "mergeOrPush transformed summaryMeta abridged =
     (if abridged = [] then push_transformed transformed abridged
      else (let prev = last abridged
            in (case metadata prev of
                  Some pmd \<Rightarrow>
                    (case md_summary pmd of
                       Some prevInfo \<Rightarrow>
                         (if hasNonSummaryText prev = Some False
                          then butlast abridged @ [merge_into_prev prev pmd prevInfo summaryMeta]
                          else push_transformed transformed abridged)
                     | None \<Rightarrow> push_transformed transformed abridged)
                | None \<Rightarrow> push_transformed transformed abridged)))"

text \<open>Lines 867-965: an assistant message with block content that is not the last tool turn.\<close>

definition transformAssistant ::
  "(string \<rightharpoonup> tool_meta) \<Rightarrow> message \<Rightarrow> message list \<Rightarrow> message list" where
  "transformAssistant toolInfo msg abridged =
     (let transformed0 =
            msg\<lparr>content := Blocks [], hasNonSummaryText := Some False, summaryInfo := None,
                summaryToolIds := Some (case summaryToolIds msg of Some ids \<Rightarrow> ids | None \<Rightarrow> [])\<rparr>;
          (transformed1, pendingToolBatch) =
            foldl (transformPart toolInfo) (transformed0, []) (blocks_of (content msg));
          transformed2 = appendBatch pendingToolBatch transformed1
      in (case summaryInfo transformed2 of
            None \<Rightarrow> push_transformed transformed2 abridged
          | Some info \<Rightarrow>
              (let summaryTexts = buildToolSummaryText info;
                   transformed3 =
                     transformed2\<lparr>content := Blocks (blocks_of (content transformed2) @ summary_blocks info)\<rparr>
               in if hasNonSummaryText transformed3 \<noteq> Some True \<and> summaryTexts \<noteq> []
                  then mergeOrPush (withSummaryMetadata transformed3 (cloneSummaryInfo info))
                         (cloneSummaryInfo info) abridged
                  else push_transformed transformed3 abridged)))"

text \<open>\<open>msg.content[0]?.type === 'tool_result'\<close>\<close>

definition first_is_tool_result :: "message \<Rightarrow> bool" where
  "first_is_tool_result msg =
     (case blocks_of (content msg) of [] \<Rightarrow> False | part # rest \<Rightarrow> is_ToolResult part)"

definition isLastToolResult :: "string list option \<Rightarrow> message \<Rightarrow> bool" where
  "isLastToolResult lastToolUseIds msg =
     (case lastToolUseIds of
        None \<Rightarrow> False
      | Some ids \<Rightarrow>
          list_ex (\<lambda>part. is_ToolResult part \<and> tool_use_id part \<in> set ids)
            (blocks_of (content msg)))"

text \<open>One round of the loop of lines 861-976, on \<open>history[i]\<close>.\<close>

definition viewStep ::
  "(string \<rightharpoonup> tool_meta) \<Rightarrow> nat option \<Rightarrow> string list option \<Rightarrow> nat \<Rightarrow> message \<Rightarrow>
   message list \<Rightarrow> message list" where
  "viewStep toolInfo lastToolMessageIndex lastToolUseIds i msg abridged =
     (if Some i = lastToolMessageIndex then abridged @ [msg]
      else if role msg = Assistant \<and> \<not> is_Str (content msg)
      then transformAssistant toolInfo msg abridged
      else if role msg = User \<and> \<not> is_Str (content msg) \<and> first_is_tool_result msg
      then (if isLastToolResult lastToolUseIds msg then abridged @ [msg] else abridged)
      else abridged @ [msg])"

fun viewLoop ::
  "(string \<rightharpoonup> tool_meta) \<Rightarrow> nat option \<Rightarrow> string list option \<Rightarrow> nat \<Rightarrow> message list \<Rightarrow>
   message list \<Rightarrow> message list" where
  "viewLoop toolInfo lastIdx lastIds i [] abridged = abridged"
| "viewLoop toolInfo lastIdx lastIds i (msg # rest) abridged =
     viewLoop toolInfo lastIdx lastIds (Suc i) rest
       (viewStep toolInfo lastIdx lastIds i msg abridged)"

definition tool_use_ids :: "message \<Rightarrow> string list" where
  "tool_use_ids entry = map tu_id (filter is_ToolUse (blocks_of (content entry)))"

text \<open>Lines 821-978: the minimized view of the chosen part of the history.\<close>

definition minimizeHistory :: "message list \<Rightarrow> message list" where
  "minimizeHistory history =
     (let toolInfo = build_toolInfo history;
          lastToolMessageIndex = findLastToolInteractionIndex history;
          lastToolUseIds = (case lastToolMessageIndex of
                              None \<Rightarrow> None
                            | Some k \<Rightarrow> Some (tool_use_ids (history ! k)))
      in viewLoop toolInfo lastToolMessageIndex lastToolUseIds 0 history [])"

text \<open>Lines 804-816: the part of the history the view is taken of.\<close>

definition viewBase :: "int \<Rightarrow> message list \<Rightarrow> message list" where
  "viewBase limitMessages fullHistory =
     (let history = (if limitMessages > 0
                     then sliceHistoryByUserMessages limitMessages fullHistory
                     else fullHistory)
      in if limitMessages > 0
         then (case findLastToolInteractionIndex fullHistory of
                 None \<Rightarrow> history
               | Some lastToolIdx \<Rightarrow>
                   (let baseStartIdx = length fullHistory - length history
                    in if lastToolIdx < baseStartIdx then drop lastToolIdx fullHistory
                       else history))
         else history)"

text \<open>
  \<open>getHistoryView(minimizeTokens, limitMessages)\<close>. \<open>cloneMessage\<close> is a deep copy: as a
  value the clone is the message.
\<close>

definition getHistoryView :: "bool \<Rightarrow> int \<Rightarrow> message list \<Rightarrow> message list" where
  "getHistoryView minimizeTokens limitMessages fullHistory =
     (let history = viewBase limitMessages fullHistory
      in if \<not> minimizeTokens then history else minimizeHistory history)"

section \<open>Sending a message\<close>

text \<open>
  Lines 667-686 of \<open>buildAugmentedPrompt\<close>: the text of the summary. The \<open>code_summary\<close>
  handler is called without arguments; its failure and that of \<open>JSON.stringify\<close> are
  caught, and the \<open>catch\<close> block reads \<open>error.message\<close>, which throws when the handler has
  rejected with \<open>null\<close> or \<open>undefined\<close>: then \<open>buildAugmentedPrompt\<close> rejects. When
  \<open>JSON.stringify\<close> gives \<open>undefined\<close> the summary text is not a string and line 688 takes
  the empty string for it, as here.
\<close>

definition codeSummaryText :: "'w tool list \<Rightarrow> 'w \<Rightarrow> (string + string) \<times> 'w \<times> event list" where
  "codeSummaryText ts w =
     (case find_tool ts ''code_summary'' of
        Some summaryTool \<Rightarrow>
          (case handler summaryTool JUndefined w of
             (Returned summary, w1) \<Rightarrow>
               (Inr (case summary of
                       JString str \<Rightarrow> str
                     | JOther str js t \<Rightarrow>
                         (case js of
                            Json json \<Rightarrow> json
                          | JsonUndefined \<Rightarrow> []
                          | JsonThrows msg \<Rightarrow> ''[Error generating summary: '' @ msg @ '']'')
                     | JUndefined \<Rightarrow> ''[code_summary returned no data]''
                     | JNull \<Rightarrow> ''[code_summary returned no data]''), w1,
                [RunSummary (Returned summary)])
           | (Threw msg, w1) \<Rightarrow>
               (Inr (''[Error generating summary: '' @ msg @ '']''), w1, [RunSummary (Threw msg)])
           | (ThrewNullish, w1) \<Rightarrow>
               (Inl ''TypeError: cannot read properties of null (reading message)'', w1,
                [RunSummary ThrewNullish]))
      | None \<Rightarrow> (Inr ''[code_summary tool unavailable]'', w, []))"

text \<open>Lines 688-689: \<open>summaryText.trimEnd() || '[No summary generated]'\<close>.\<close>

definition finalSummary :: "string \<Rightarrow> string" where
  "finalSummary summaryText =
     (let cleanedSummary = trimEnd summaryText
      in if cleanedSummary \<noteq> [] then cleanedSummary else ''[No summary generated]'')"

text \<open>\<open>buildAugmentedPrompt(originalMessage)\<close> for a string.\<close>

definition buildAugmentedPrompt ::
  "string \<Rightarrow> 'w tool list \<Rightarrow> 'w \<Rightarrow> (string + string) \<times> 'w \<times> event list" where
  "buildAugmentedPrompt originalMessage ts w =
     (case codeSummaryText ts w of
        (Inl err, w', evs) \<Rightarrow> (Inl err, w', evs)
      | (Inr summaryText, w', evs) \<Rightarrow>
          (Inr (''Code summary:'' @ [CHR 0x0A] @ finalSummary summaryText @ [CHR 0x0A, CHR 0x0A]
                @ originalMessage),
           w', evs))"

text \<open>
  A number as the loop observes \<open>options.maxIterations\<close>: \<open>NaN\<close>, a whole number, a
  finite number that is not whole (kept by its floor and by what \<open>String\<close> shows of it),
  or an infinite one. The loop counts its rounds in a double: \<open>iterations++\<close> has no
  effect once \<open>2^53\<close> is reached.
\<close>

datatype jsnumber = NaN | Num int | Frac int string | PlusInfinity | MinusInfinity

text \<open>\<open>x || d\<close> takes \<open>d\<close> for the falsy numbers \<open>0\<close> and \<open>NaN\<close>.\<close>

fun truthy :: "jsnumber \<Rightarrow> bool" where
  "truthy NaN = False"
| "truthy (Num n) = (n \<noteq> 0)"
| "truthy x = True"

text \<open>\<open>i < x\<close> and \<open>i >= x\<close> for a round count \<open>i\<close>.\<close>

fun lt_number :: "nat \<Rightarrow> jsnumber \<Rightarrow> bool" where
  "lt_number i NaN = False"
| "lt_number i (Num n) = (int i < n)"
| "lt_number i (Frac f s) = (int i \<le> f)"
| "lt_number i PlusInfinity = True"
| "lt_number i MinusInfinity = False"

fun ge_number :: "nat \<Rightarrow> jsnumber \<Rightarrow> bool" where
  "ge_number i NaN = False"
| "ge_number i (Num n) = (n \<le> int i)"
| "ge_number i (Frac f s) = (f < int i)"
| "ge_number i PlusInfinity = False"
| "ge_number i MinusInfinity = True"

definition next_iteration :: "nat \<Rightarrow> nat" where
  "next_iteration i = (if i < 2 ^ 53 then i + 1 else i)"

text \<open>
  \<open>String(x)\<close>; a whole number is shown by its decimal digits, as \<open>String\<close> does up to
  \<open>2^53\<close> in magnitude.
\<close>

fun show_number :: "jsnumber \<Rightarrow> string" where
  "show_number NaN = ''NaN''"
| "show_number (Num n) = show_int n"
| "show_number (Frac f s) = s"
| "show_number PlusInfinity = ''Infinity''"
| "show_number MinusInfinity = ''-Infinity''"

text \<open>
  The options the loop reads; \<open>maxIterations\<close> is a number or absent. \<open>model\<close>,
  \<open>maxTokens\<close> and \<open>temperature\<close> only travel to the provider, which is abstract here.
  The hooks \<open>onProgress\<close> and \<open>prepareRateLimit\<close> are taken as not supplied.
\<close>

record options =
  maxIterations :: "jsnumber option"
  minimizeTokens :: bool
  limitMessages :: int
  preAddedUserMessage :: bool

definition default_options :: options where
  "default_options =
     \<lparr>maxIterations = None, minimizeTokens = False, limitMessages = 0,
      preAddedUserMessage = False\<rparr>"

text \<open>The object \<open>sendMessage\<close> resolves to: the last response with the fields added to it.\<close>

record exchange_result =
  x_content :: string
  x_toolCalls :: "tool_call list"
  needsContinuation :: bool
  iterationsUsed :: "nat option"
  x_maxIterations :: "jsnumber option"
  allToolCalls :: "(tool_call \<times> msg_id) list"
  allToolResults :: "(tool_result \<times> msg_id) list"
  assistantMessageId :: "msg_id option"
  toolResultMessageId :: "msg_id option"

definition of_response :: "response \<Rightarrow> exchange_result" where
  "of_response r =
     \<lparr>x_content = r_content r, x_toolCalls = r_toolCalls r, needsContinuation = False,
      iterationsUsed = None, x_maxIterations = None, allToolCalls = [], allToolResults = [],
      assistantMessageId = None, toolResultMessageId = None\<rparr>"

text \<open>The variables of the loop of \<open>sendMessage\<close>.\<close>

record loop_vars =
  messages :: "message list"
  continueProcessing :: bool
  finalResponse :: "exchange_result option"
  lv_allToolCalls :: "(tool_call \<times> msg_id) list"
  lv_allToolResults :: "(tool_result \<times> msg_id) list"
  iterations :: nat

text \<open>Line 1027: \<open>options.maxIterations || (isContinuation ? 20 : 10)\<close>.\<close>

definition MAX_ITERATIONS :: "options \<Rightarrow> bool \<Rightarrow> jsnumber" where
  "MAX_ITERATIONS opts isContinuation =
     (case maxIterations opts of
        Some x \<Rightarrow> (if truthy x then x else if isContinuation then Num 20 else Num 10)
      | None \<Rightarrow> (if isContinuation then Num 20 else Num 10))"

definition tool_use_blocks :: "tool_call list \<Rightarrow> block list" where
  "tool_use_blocks calls = map (\<lambda>c. ToolUse (call_id c) (call_name c) (call_arguments c)) calls"

definition tool_result_blocks :: "tool_result list \<Rightarrow> block list" where
  "tool_result_blocks results =
     map (\<lambda>r. ToolResult (res_id r) (js_String (res_result r)) (res_isError r) []) results"

definition call_ids_metadata :: "string list \<Rightarrow> metadata" where
  "call_ids_metadata ids = \<lparr>toolCallIds = Some ids, md_summary = None, md_summaryToolIds = None\<rparr>"

text \<open>
  Lines 1051-1135: the response carries tool calls. When \<open>executeToolCalls\<close> rejects,
  \<open>sendMessage\<close> rejects with the assistant message stored and no tool-result message.
\<close>

definition toolIteration ::
  "response \<Rightarrow> loop_vars \<Rightarrow> ('w, 'p) manager \<Rightarrow> (string + loop_vars) \<times> ('w, 'p) manager" where
  "toolIteration resp v m =
     (let (assistantMessage0, counter1) =
            ensureMessageId
              (mk_message Assistant
                 (Blocks ((if r_content resp \<noteq> [] then [TextBlock (r_content resp) False] else [])
                          @ tool_use_blocks (r_toolCalls resp))))
              (messageIdCounter m);
          assistantMessage =
            assistantMessage0\<lparr>metadata := Some (call_ids_metadata (map call_id (r_toolCalls resp)))\<rparr>
      in (case executeToolCalls (r_toolCalls resp) (tools m) (world m) of
            (Inl err, w', evs) \<Rightarrow>
              (Inl err,
               m\<lparr>conversationHistory := conversationHistory m @ [assistantMessage],
                 messageIdCounter := counter1,
                 world := w',
                 trace := trace m @ evs\<rparr>)
          | (Inr toolResults, w', evs) \<Rightarrow>
              (let (toolResultMessage0, counter2) =
                     ensureMessageId (mk_message User (Blocks (tool_result_blocks toolResults)))
                       counter1;
                   toolResultMessage =
                     toolResultMessage0\<lparr>metadata := Some (call_ids_metadata (map res_id toolResults))\<rparr>
               in (Inr (v\<lparr>messages := messages v @ [assistantMessage, toolResultMessage],
                          lv_allToolCalls :=
                            lv_allToolCalls v @
                            map (\<lambda>c. (c, msg_id assistantMessage)) (r_toolCalls resp),
                          lv_allToolResults :=
                            lv_allToolResults v @
                            map (\<lambda>r. (r, msg_id toolResultMessage)) toolResults,
                          finalResponse :=
                            Some ((of_response resp)
                                    \<lparr>assistantMessageId := Some (msg_id assistantMessage),
                                     toolResultMessageId := Some (msg_id toolResultMessage)\<rparr>)\<rparr>),
                   m\<lparr>conversationHistory :=
                       conversationHistory m @ [assistantMessage, toolResultMessage],
                     messageIdCounter := counter2,
                     world := w',
                     trace := trace m @ evs\<rparr>))))"

text \<open>Lines 1136-1158: the response carries no tool call.\<close>

definition finalIteration ::
  "response \<Rightarrow> loop_vars \<Rightarrow> ('w, 'p) manager \<Rightarrow> loop_vars \<times> ('w, 'p) manager" where
  "finalIteration resp v m =
     (if r_content resp \<noteq> []
      then (let (assistantMessage, counter1) =
                  ensureMessageId (mk_message Assistant (Str (r_content resp))) (messageIdCounter m)
            in (v\<lparr>continueProcessing := False,
                  finalResponse :=
                    Some ((of_response resp)\<lparr>assistantMessageId := Some (msg_id assistantMessage)\<rparr>)\<rparr>,
                m\<lparr>conversationHistory := conversationHistory m @ [assistantMessage],
                  messageIdCounter := counter1\<rparr>))
      else (v\<lparr>continueProcessing := False, finalResponse := Some (of_response resp)\<rparr>, m))"

text \<open>
  The loop of lines 1036-1159. A rejected \<open>callAPI\<close> or \<open>executeToolCalls\<close> leaves the
  loop (and \<open>sendMessage\<close>) with the error; what was appended before stays. With an
  infinite budget, or one beyond \<open>2^53\<close>, and a provider that goes on answering with tool
  calls the loop does not end: the result is \<open>None\<close>.
\<close>

partial_function (option) sendLoop ::
  "'p callAPI \<Rightarrow> jsnumber \<Rightarrow> loop_vars \<Rightarrow> ('w, 'p) manager \<Rightarrow>
   ((string + loop_vars) \<times> ('w, 'p) manager) option" where
  "sendLoop api maxIter v m =
     (if continueProcessing v \<and> lt_number (iterations v) maxIter
      then (let v1 = v\<lparr>iterations := next_iteration (iterations v)\<rparr>;
                (r, p') = api (pstate m) (messages v1);
                m1 = m\<lparr>pstate := p', trace := trace m @ [CallAPI (messages v1) r]\<rparr>
            in (case r of
                  Inl err \<Rightarrow> Some (Inl err, m1)
                | Inr resp \<Rightarrow>
                    (if r_toolCalls resp \<noteq> []
                     then (case toolIteration resp v1 m1 of
                             (Inl err, m2) \<Rightarrow> Some (Inl err, m2)
                           | (Inr v2, m2) \<Rightarrow> sendLoop api maxIter v2 m2)
                     else (case finalIteration resp v1 m1 of
                             (v2, m2) \<Rightarrow> sendLoop api maxIter v2 m2))))
      else Some (Inr v, m))"

text \<open>Lines 1012-1024: the latest user text of the outbound list is augmented.\<close>

definition augmentMessages ::
  "message list \<Rightarrow> ('w, 'p) manager \<Rightarrow> (string + message list) \<times> ('w, 'p) manager" where
  "augmentMessages msgs m =
     (case findLatestUserTextMessageIndex msgs of
        None \<Rightarrow> (Inr msgs, m)
      | Some targetIndex \<Rightarrow>
          (case content (msgs ! targetIndex) of
             Str originalContent \<Rightarrow>
               (case buildAugmentedPrompt originalContent (tools m) (world m) of
                  (Inl err, w', evs) \<Rightarrow> (Inl err, m\<lparr>world := w', trace := trace m @ evs\<rparr>)
                | (Inr augmentedPrompt, w', evs) \<Rightarrow>
                    (Inr (if augmentedPrompt \<noteq> originalContent
                          then msgs[targetIndex :=
                                      (msgs ! targetIndex)\<lparr>content := Str augmentedPrompt\<rparr>]
                          else msgs),
                     m\<lparr>world := w', trace := trace m @ evs\<rparr>))
           | Blocks parts \<Rightarrow> (Inr msgs, m)))"

text \<open>Line 1177: the notice of a paused loop; the warning sign is its UTF-8 bytes.\<close>

definition limit_notice :: "jsnumber \<Rightarrow> string" where
  "limit_notice maxIter =
     [CHR 0xE2, CHR 0x9A, CHR 0xA0, CHR 0xEF, CHR 0xB8, CHR 0x8F] @
     '' Reached tool iteration limit ('' @ show_number maxIter @
     '' iterations). The task may not be complete. Click '' @ [CHR 0x22] @ ''Continue Tools'' @
     [CHR 0x22] @ '' to resume processing.''"

text \<open>Lines 1161-1185: what \<open>sendMessage\<close> returns once the loop has ended.\<close>

definition finishSend :: "jsnumber \<Rightarrow> loop_vars \<Rightarrow> string + exchange_result" where
  "finishSend maxIter v =
     (let final =
            (if ge_number (iterations v) maxIter \<and> continueProcessing v
             then (let fr0 = (case finalResponse v of
                                Some fr \<Rightarrow> fr
                              | None \<Rightarrow> of_response \<lparr>r_content = [], r_toolCalls = []\<rparr>);
                       fr1 = fr0\<lparr>needsContinuation := True,
                                 iterationsUsed := Some (iterations v),
                                 x_maxIterations := Some maxIter\<rparr>
                   in Some (if x_content fr1 = [] then fr1\<lparr>x_content := limit_notice maxIter\<rparr>
                            else fr1))
             else finalResponse v)
      in (case final of
            None \<Rightarrow> Inl ''TypeError: finalResponse is null''
          | Some fr \<Rightarrow>
              Inr (fr\<lparr>allToolCalls := lv_allToolCalls v, allToolResults := lv_allToolResults v\<rparr>)))"

text \<open>Lines 1006-1010: the outbound list, with the system prompt in front when one is set.\<close>

definition outboundMessages :: "options \<Rightarrow> ('w, 'p) manager \<Rightarrow> message list" where
  "outboundMessages opts m =
     (let msgs = getHistoryView (minimizeTokens opts) (limitMessages opts) (conversationHistory m)
      in (case systemPrompt m of
            Some prompt \<Rightarrow>
              (if prompt \<noteq> [] \<and> \<not> (msgs \<noteq> [] \<and> role (hd msgs) = System)
               then mk_message System (Str prompt) # msgs
               else msgs)
          | None \<Rightarrow> msgs))"

definition initial_vars :: "message list \<Rightarrow> loop_vars" where
  "initial_vars msgs =
     \<lparr>messages = msgs, continueProcessing = True, finalResponse = None,
      lv_allToolCalls = [], lv_allToolResults = [], iterations = 0\<rparr>"

text \<open>
  Lines 988-1024 of \<open>sendMessage\<close>: the ids of the stored messages are completed, the user
  message is appended (unless this is a continuation or the caller did it), the outbound
  list is built and its latest user text is augmented.
\<close>

definition isContinuation :: "string \<Rightarrow> bool" where
  "isContinuation userMessage = (userMessage = ''__continue_tools__'')"

definition appendUserMessage :: "string \<Rightarrow> options \<Rightarrow> ('w, 'p) manager \<Rightarrow> ('w, 'p) manager" where
  "appendUserMessage userMessage opts m0 =
     (let m1 = ensureHistoryMessageIds m0
      in if \<not> isContinuation userMessage \<and> \<not> preAddedUserMessage opts
         then addMessage User (Str userMessage) m1 else m1)"

definition prepareSend ::
  "string \<Rightarrow> options \<Rightarrow> ('w, 'p) manager \<Rightarrow> (string + message list) \<times> ('w, 'p) manager" where
  "prepareSend userMessage opts m0 =
     (let m2 = appendUserMessage userMessage opts m0;
          msgs0 = outboundMessages opts m2
      in if \<not> isContinuation userMessage then augmentMessages msgs0 m2 else (Inr msgs0, m2))"

text \<open>
  \<open>sendMessage(userMessage, options)\<close>: the result (or the error it rejects with) and
  the manager afterwards; \<open>None\<close> when the call does not return.
\<close>

definition sendMessage ::
  "string \<Rightarrow> options \<Rightarrow> ('w, 'p) manager \<Rightarrow>
   ((string + exchange_result) \<times> ('w, 'p) manager) option" where
  "sendMessage userMessage opts m0 =
     (case provider m0 of
        None \<Rightarrow> Some (Inl ''No AI provider configured'', m0)
      | Some api \<Rightarrow>
          (case prepareSend userMessage opts m0 of
             (Inl err, m3) \<Rightarrow> Some (Inl err, m3)
           | (Inr msgs1, m3) \<Rightarrow>
               (case sendLoop api (MAX_ITERATIONS opts (isContinuation userMessage))
                       (initial_vars msgs1) m3 of
                  None \<Rightarrow> None
                | Some (Inl err, m4) \<Rightarrow> Some (Inl err, m4)
                | Some (Inr v, m4) \<Rightarrow>
                    Some (finishSend (MAX_ITERATIONS opts (isContinuation userMessage)) v, m4))))"

definition getHistory :: "('w, 'p) manager \<Rightarrow> message list" where
  "getHistory m = conversationHistory m"

section \<open>Observing a run\<close>

fun is_CallAPI :: "event \<Rightarrow> bool" where
  "is_CallAPI (CallAPI msgs r) = True"
| "is_CallAPI e = False"

text \<open>The number of times the provider was called.\<close>

definition api_calls :: "event list \<Rightarrow> nat" where
  "api_calls tr = length (filter is_CallAPI tr)"

text \<open>
  A stub provider that answers from a script, one response per call, and rejects once
  the script is used up.
\<close>

definition stub_api :: "(response list) callAPI" where
  "stub_api script msgs =
     (case script of
        [] \<Rightarrow> (Inl ''stub: no response left'', [])
      | r # rest \<Rightarrow> (Inr r, rest))"

text \<open>The tool \<open>echo\<close>: its handler returns its argument.\<close>

definition echo :: "jsval \<Rightarrow> 'w \<Rightarrow> outcome \<times> 'w" where
  "echo a w = (Returned a, w)"

text \<open>
  What a batch of tool calls amounts to, as a relation between the calls, the world
  before, the blocks of the tool-result message (\<open>None\<close> when a rejection was not
  converted and the batch was given up), the world after and the handler events: the
  calls are taken in order, each handler runs in the world its predecessor left, a call
  of an unregistered tool runs nothing.
\<close>

definition unknown_block :: "tool_call \<Rightarrow> block" where
  "unknown_block c = ToolResult (call_id c) (''Unknown tool: '' @ call_name c) True []"

fun result_block :: "tool_call \<Rightarrow> outcome \<Rightarrow> block option" where
  "result_block c (Returned v) = Some (ToolResult (call_id c) (js_String v) False [])"
| "result_block c (Threw msg) = Some (ToolResult (call_id c) (''Error: '' @ msg) True [])"
| "result_block c ThrewNullish = None"

inductive batch ::
  "'w tool list \<Rightarrow> tool_call list \<Rightarrow> 'w \<Rightarrow> block list option \<Rightarrow> 'w \<Rightarrow> event list \<Rightarrow> bool"
  for ts :: "'w tool list" where
  batch_done: "batch ts [] w (Some []) w []"
| batch_unknown:
    "find_tool ts (call_name c) = None \<Longrightarrow> batch ts cs w r w' hs \<Longrightarrow>
     batch ts (c # cs) w (map_option ((#) (unknown_block c)) r) w' hs"
| batch_handled:
    "find_tool ts (call_name c) = Some t \<Longrightarrow> handler t (call_arguments c) w = (out, w1) \<Longrightarrow>
     result_block c out = Some b \<Longrightarrow> batch ts cs w1 r w' hs \<Longrightarrow>
     batch ts (c # cs) w (map_option ((#) b) r) w'
       (RunHandler (call_name c) (call_arguments c) out # hs)"
| batch_given_up:
    "find_tool ts (call_name c) = Some t \<Longrightarrow> handler t (call_arguments c) w = (out, w1) \<Longrightarrow>
     result_block c out = None \<Longrightarrow>
     batch ts (c # cs) w None w1 [RunHandler (call_name c) (call_arguments c) out]"




text \<open>
  The shape of a run of the loop with \<open>k\<close> rounds to go, from the state \<open>p\<close> of the
  provider, the world \<open>w\<close> and the outbound list \<open>msgs\<close>: the messages it appends to the
  history and the events it adds to the trace. While rounds are left the provider is
  called; a response with tool calls leaves the assistant message with its \<open>ToolUse\<close>
  blocks, then the handlers run as a batch, then the user message with the result blocks
  is appended, and the run goes on from the list extended by the two messages.
\<close>

definition tool_message_of :: "response \<Rightarrow> message \<Rightarrow> bool" where
  "tool_message_of resp a =
     (role a = Assistant \<and>
      content a = Blocks ((if r_content resp \<noteq> [] then [TextBlock (r_content resp) False] else [])
                          @ tool_use_blocks (r_toolCalls resp)))"

inductive run ::
  "'p callAPI \<Rightarrow> 'w tool list \<Rightarrow> enat \<Rightarrow> 'p \<Rightarrow> 'w \<Rightarrow> message list \<Rightarrow> message list \<Rightarrow>
   event list \<Rightarrow> bool"
  for api :: "'p callAPI" and ts :: "'w tool list" where
  run_paused: "run api ts 0 p w msgs [] []"
| run_reject:
    "k \<noteq> 0 \<Longrightarrow> api p msgs = (Inl err, p') \<Longrightarrow> run api ts k p w msgs [] [CallAPI msgs (Inl err)]"
| run_final_empty:
    "k \<noteq> 0 \<Longrightarrow> api p msgs = (Inr resp, p') \<Longrightarrow> r_toolCalls resp = [] \<Longrightarrow> r_content resp = [] \<Longrightarrow>
     run api ts k p w msgs [] [CallAPI msgs (Inr resp)]"
| run_final_text:
    "k \<noteq> 0 \<Longrightarrow> api p msgs = (Inr resp, p') \<Longrightarrow> r_toolCalls resp = [] \<Longrightarrow> r_content resp \<noteq> [] \<Longrightarrow>
     role f = Assistant \<Longrightarrow> content f = Str (r_content resp) \<Longrightarrow>
     run api ts k p w msgs [f] [CallAPI msgs (Inr resp)]"
| run_given_up:
    "k \<noteq> 0 \<Longrightarrow> api p msgs = (Inr resp, p') \<Longrightarrow> r_toolCalls resp \<noteq> [] \<Longrightarrow>
     tool_message_of resp a \<Longrightarrow> batch ts (r_toolCalls resp) w None w' hs \<Longrightarrow>
     run api ts k p w msgs [a] (CallAPI msgs (Inr resp) # hs)"
| run_turn:
    "k \<noteq> 0 \<Longrightarrow> api p msgs = (Inr resp, p') \<Longrightarrow> r_toolCalls resp \<noteq> [] \<Longrightarrow>
     tool_message_of resp a \<Longrightarrow> batch ts (r_toolCalls resp) w (Some bs) w' hs \<Longrightarrow>
     role u = User \<Longrightarrow> content u = Blocks bs \<Longrightarrow>
     run api ts (k - 1) p' w' (msgs @ [a, u]) seg evs \<Longrightarrow>
     run api ts k p w msgs (a # u # seg) (CallAPI msgs (Inr resp) # hs @ evs)"




text \<open>A stub provider whose every response is one call of the tool \<open>echo\<close>.\<close>

definition loop_api :: "unit callAPI" where
  "loop_api p msgs =
     (Inr \<lparr>r_content = [],
           r_toolCalls = [\<lparr>call_id = ''t'', call_name = ''echo'', call_arguments = JString ''x''\<rparr>]\<rparr>, p)"

text \<open>A manager with the stub \<open>loop_api\<close> and the tool \<open>echo\<close> registered.\<close>

definition demo_manager :: "(unit, unit) manager" where
  "demo_manager = registerTool ''echo'' echo (registerProvider loop_api (new_manager () ()))"




text \<open>
  Tools for the scenarios. The world is the list of the names of the handlers that have
  run, in order: \<open>noting n\<close> returns its argument, \<open>failing n msg\<close> throws an \<open>Error\<close> with
  the message \<open>msg\<close>, \<open>rejecting n\<close> rejects with \<open>null\<close>.
\<close>

definition noting :: "string \<Rightarrow> jsval \<Rightarrow> string list \<Rightarrow> outcome \<times> string list" where
  "noting n a w = (Returned a, w @ [n])"

definition failing :: "string \<Rightarrow> string \<Rightarrow> jsval \<Rightarrow> string list \<Rightarrow> outcome \<times> string list" where
  "failing n msg a w = (Threw msg, w @ [n])"

definition rejecting :: "string \<Rightarrow> jsval \<Rightarrow> string list \<Rightarrow> outcome \<times> string list" where
  "rejecting n a w = (ThrewNullish, w @ [n])"

text \<open>
  A manager with the scripted stub provider and the tools \<open>echo\<close> (noting), \<open>boom\<close>
  (throwing \<open>"boom"\<close>) and \<open>void\<close> (rejecting with \<open>null\<close>) registered.
\<close>

definition scripted_manager :: "response list \<Rightarrow> (string list, response list) manager" where
  "scripted_manager script =
     registerTool ''void'' (rejecting ''void'')
       (registerTool ''boom'' (failing ''boom'' ''boom'')
          (registerTool ''echo'' (noting ''echo'')
             (registerProvider stub_api (new_manager [] script))))"




text \<open>
  The invariant of the message ids: every stored message has a finite numeric id, the
  ids increase strictly along the history, and none exceeds the counter, which is finite.
\<close>

definition id_num :: "message \<Rightarrow> int option" where
  "id_num msg = (case msg_id msg of NumId i \<Rightarrow> Some i | _ \<Rightarrow> None)"

fun ids_increasing :: "int \<Rightarrow> message list \<Rightarrow> bool" where
  "ids_increasing lower [] = True"
| "ids_increasing lower (msg # rest) =
     (case id_num msg of
        Some i \<Rightarrow> lower < i \<and> ids_increasing i rest
      | None \<Rightarrow> False)"

fun ids_below :: "int \<Rightarrow> message list \<Rightarrow> bool" where
  "ids_below counter [] = True"
| "ids_below counter (msg # rest) =
     (case id_num msg of
        Some i \<Rightarrow> i \<le> counter \<and> ids_below counter rest
      | None \<Rightarrow> False)"

definition ids_ok :: "('w, 'p) manager \<Rightarrow> bool" where
  "ids_ok m =
     (case messageIdCounter m of
        Fin c \<Rightarrow> 0 \<le> c \<and> ids_increasing 0 (conversationHistory m) \<and>
                 ids_below c (conversationHistory m)
      | _ \<Rightarrow> False)"

text \<open>The counter is below \<open>2^53\<close>, where adding 1 is exact.\<close>

definition counter_exact :: "('w, 'p) manager \<Rightarrow> bool" where
  "counter_exact m = (case messageIdCounter m of Fin c \<Rightarrow> c < 2 ^ 53 | _ \<Rightarrow> False)"

text \<open>
  The operations on the store that a caller of the manager has; \<open>None\<close> when
  \<open>sendMessage\<close> does not return.
\<close>

datatype store_op = OpAddMessage role content | OpSendMessage string options | OpClearHistory

fun apply_op :: "('w, 'p) manager \<Rightarrow> store_op \<Rightarrow> ('w, 'p) manager option" where
  "apply_op m (OpAddMessage r c) = Some (addMessage r c m)"
| "apply_op m (OpSendMessage u opts) = map_option snd (sendMessage u opts m)"
| "apply_op m OpClearHistory = Some (clearHistory m)"

fun apply_ops :: "('w, 'p) manager \<Rightarrow> store_op list \<Rightarrow> ('w, 'p) manager option" where
  "apply_ops m [] = Some m"
| "apply_ops m (op # ops) =
     (case apply_op m op of None \<Rightarrow> None | Some m1 \<Rightarrow> apply_ops m1 ops)"

text \<open>
  The outbound list before the augmentation, and a manager whose \<open>code_summary\<close> handler
  does a given thing.
\<close>

abbreviation outbound :: "string \<Rightarrow> options \<Rightarrow> ('w, 'p) manager \<Rightarrow> message list" where
  "outbound u opts m \<equiv> outboundMessages opts (appendUserMessage u opts m)"

definition code_summary_doing :: "outcome \<Rightarrow> jsval \<Rightarrow> string list \<Rightarrow> outcome \<times> string list" where
  "code_summary_doing out a w = (out, w @ [''code_summary''])"

definition summary_manager :: "outcome \<Rightarrow> response list \<Rightarrow> (string list, response list) manager" where
  "summary_manager out script =
     registerTool ''code_summary'' (code_summary_doing out) (scripted_manager script)"

text \<open>
  White space at the end of a string, as a property: \<open>blank s\<close> when \<open>s\<close> is made of
  white-space characters only, \<open>ends_blank s\<close> when its last character is one.
\<close>

inductive blank :: "string \<Rightarrow> bool" where
  blank_empty: "blank []"
| blank_more: "blank s \<Longrightarrow> ws \<in> set white_space \<Longrightarrow> blank (s @ ws)"

definition ends_blank :: "string \<Rightarrow> bool" where
  "ends_blank s = (\<exists>ws \<in> set white_space. suffix ws s)"

section \<open>The adapters' parseResponse\<close>

text \<open>
  The body of an HTTP-success response, by the fields each adapter reads; \<open>None\<close> is a
  field that is absent (\<open>undefined\<close>) or \<open>null\<close>. A thrown \<open>TypeError\<close> or \<open>SyntaxError\<close> is
  the \<open>Inl\<close> result. \<open>JSON.parse\<close> is a parameter (\<open>None\<close>: it throws), and so is the
  supply of \<open>crypto.randomUUID()\<close>.
\<close>

definition empty_result :: response where
  "empty_result = \<lparr>r_content = [], r_toolCalls = []\<rparr>"

subsection \<open>Claude (lines 183-204)\<close>

datatype claude_part = ClaudeText string | ClaudeToolUse string string jsval | ClaudeOtherPart

record claude_body =
  claude_content :: "claude_part list option"

fun claude_step :: "response \<Rightarrow> claude_part \<Rightarrow> response" where
  "claude_step result (ClaudeText t) = result\<lparr>r_content := r_content result @ t\<rparr>"
| "claude_step result (ClaudeToolUse i n input) =
     result\<lparr>r_toolCalls := r_toolCalls result @
               [\<lparr>call_id = i, call_name = n, call_arguments = input\<rparr>]\<rparr>"
| "claude_step result ClaudeOtherPart = result"

definition ClaudeProvider_parseResponse :: "claude_body \<Rightarrow> string + response" where
  "ClaudeProvider_parseResponse body =
     (case claude_content body of
        None \<Rightarrow> Inl ''TypeError: response.content is not iterable''
      | Some parts \<Rightarrow> Inr (foldl claude_step empty_result parts))"

subsection \<open>OpenAI (lines 343-370)\<close>

record openai_tool_call =
  oa_id :: string
  oa_function_name :: string
  oa_function_arguments :: string

record openai_message =
  oa_content :: "string option"
  oa_tool_calls :: "openai_tool_call list option"

record openai_choice =
  oa_message :: "openai_message option"

record openai_body =
  oa_choices :: "openai_choice list option"

fun openai_calls :: "(string \<Rightarrow> jsval option) \<Rightarrow> openai_tool_call list \<Rightarrow> tool_call list option" where
  "openai_calls JSON_parse [] = Some []"
| "openai_calls JSON_parse (tc # rest) =
     (case JSON_parse (oa_function_arguments tc) of
        None \<Rightarrow> None
      | Some args \<Rightarrow>
          (case openai_calls JSON_parse rest of
             None \<Rightarrow> None
           | Some calls \<Rightarrow>
               Some (\<lparr>call_id = oa_id tc, call_name = oa_function_name tc, call_arguments = args\<rparr>
                     # calls)))"

definition OpenAIProvider_parseResponse ::
  "(string \<Rightarrow> jsval option) \<Rightarrow> openai_body \<Rightarrow> string + response" where
  "OpenAIProvider_parseResponse JSON_parse body =
     (case oa_choices body of
        None \<Rightarrow> Inl ''TypeError: cannot read properties of undefined (reading 0)''
      | Some [] \<Rightarrow> Inl ''TypeError: cannot read properties of undefined (reading message)''
      | Some (choice # others) \<Rightarrow>
          (case oa_message choice of
             None \<Rightarrow> Inl ''TypeError: cannot read properties of undefined (reading content)''
           | Some message \<Rightarrow>
               (let text = (case oa_content message of Some t \<Rightarrow> t | None \<Rightarrow> [])
                in (case oa_tool_calls message of
                      None \<Rightarrow> Inr \<lparr>r_content = text, r_toolCalls = []\<rparr>
                    | Some tcs \<Rightarrow>
                        (case openai_calls JSON_parse tcs of
                           None \<Rightarrow> Inl ''SyntaxError: JSON.parse''
                         | Some calls \<Rightarrow> Inr \<lparr>r_content = text, r_toolCalls = calls\<rparr>)))))"

subsection \<open>Gemini (lines 501-536)\<close>

text \<open>
  A part has a text (empty: absent) and possibly a function call; \<open>gm_parts\<close> is
  \<open>candidate.content.parts\<close> when \<open>candidate.content\<close> and the parts are there.
\<close>

record gemini_part =
  gm_text :: string
  gm_functionCall :: "(string \<times> jsval) option"

record gemini_candidate =
  gm_parts :: "gemini_part list option"

record gemini_body =
  gm_candidates :: "gemini_candidate list option"

definition gemini_step :: "(nat \<Rightarrow> string) \<Rightarrow> response \<Rightarrow> gemini_part \<Rightarrow> response" where
  "gemini_step randomUUID result part =
     (if gm_text part \<noteq> [] then result\<lparr>r_content := r_content result @ gm_text part\<rparr>
      else (case gm_functionCall part of
              Some (n, args) \<Rightarrow>
                result\<lparr>r_toolCalls := r_toolCalls result @
                          [\<lparr>call_id = randomUUID (length (r_toolCalls result)), call_name = n,
                            call_arguments = args\<rparr>]\<rparr>
            | None \<Rightarrow> result))"

definition GeminiProvider_parseResponse :: "(nat \<Rightarrow> string) \<Rightarrow> gemini_body \<Rightarrow> string + response" where
  "GeminiProvider_parseResponse randomUUID body =
     (case gm_candidates body of
        Some (candidate # others) \<Rightarrow>
          (case gm_parts candidate of
             Some parts \<Rightarrow> Inr (foldl (gemini_step randomUUID) empty_result parts)
           | None \<Rightarrow> Inr empty_result)
      | Some [] \<Rightarrow> Inr empty_result
      | None \<Rightarrow> Inr empty_result)"

subsection \<open>Ollama (lines 1413-1476)\<close>

text \<open>
  The arguments of a call, under \<open>function\<close> or on the call itself, are any value or
  absent. The search for an inline \<open><tools>\<close> block in the text (lines 1439-1462, with
  its own \<open>try\<close>/\<open>catch\<close>) is a parameter: \<open>None\<close> when nothing matches or its JSON does
  not parse, else the calls and the text without the block.
\<close>

record ollama_function =
  ol_fn_name :: string
  ol_fn_arguments :: "jsval option"

record ollama_call =
  ol_id :: string
  ol_function :: "ollama_function option"
  ol_name :: string
  ol_arguments :: "jsval option"

record ollama_message =
  ol_content :: string
  ol_tool_calls :: "ollama_call list option"

record ollama_body =
  ol_message :: "ollama_message option"

definition empty_object :: jsval where
  "empty_object = JOther ''[object Object]'' (Json ''{}'') True"

text \<open>
  Lines 1430-1434: \<open>tc.function?.arguments ? (typeof ... === 'string' ? JSON.parse(...) :
  ...) : tc.arguments || {}\<close>; both tests are for truthiness.
\<close>

definition ollama_call_arguments :: "(string \<Rightarrow> jsval option) \<Rightarrow> ollama_call \<Rightarrow> jsval option" where
  "ollama_call_arguments JSON_parse tc =
     (let fallback = (case ol_arguments tc of
                        Some a \<Rightarrow> (if js_truthy a then a else empty_object)
                      | None \<Rightarrow> empty_object);
          fn_arguments = (case ol_function tc of
                            Some f \<Rightarrow> ol_fn_arguments f
                          | None \<Rightarrow> None)
      in (case fn_arguments of
            None \<Rightarrow> Some fallback
          | Some a \<Rightarrow>
              (if js_truthy a
               then (case a of JString t \<Rightarrow> JSON_parse t | _ \<Rightarrow> Some a)
               else Some fallback)))"

fun ollama_calls ::
  "(string \<Rightarrow> jsval option) \<Rightarrow> (nat \<Rightarrow> string) \<Rightarrow> nat \<Rightarrow> ollama_call list \<Rightarrow> tool_call list option" where
  "ollama_calls JSON_parse randomUUID k [] = Some []"
| "ollama_calls JSON_parse randomUUID k (tc # rest) =
     (case ollama_call_arguments JSON_parse tc of
        None \<Rightarrow> None
      | Some args \<Rightarrow>
          (case ollama_calls JSON_parse randomUUID (Suc k) rest of
             None \<Rightarrow> None
           | Some calls \<Rightarrow>
               Some (\<lparr>call_id = (if ol_id tc \<noteq> [] then ol_id tc else randomUUID k),
                      call_name = (case ol_function tc of
                                     Some f \<Rightarrow> (if ol_fn_name f \<noteq> [] then ol_fn_name f else ol_name tc)
                                   | None \<Rightarrow> ol_name tc),
                      call_arguments = args\<rparr> # calls)))"

definition OllamaProvider_parseResponse ::
  "(string \<Rightarrow> jsval option) \<Rightarrow> (nat \<Rightarrow> string) \<Rightarrow> (string \<Rightarrow> (tool_call list \<times> string) option) \<Rightarrow>
   ollama_body \<Rightarrow> string + response" where
  "OllamaProvider_parseResponse JSON_parse randomUUID inline_tools body =
     (case ol_message body of
        None \<Rightarrow> Inr empty_result
      | Some message \<Rightarrow>
          (case ol_tool_calls message of
             Some tcs \<Rightarrow>
               (case ollama_calls JSON_parse randomUUID 0 tcs of
                  None \<Rightarrow> Inl ''SyntaxError: JSON.parse''
                | Some calls \<Rightarrow> Inr \<lparr>r_content = ol_content message, r_toolCalls = calls\<rparr>)
           | None \<Rightarrow>
               (if ol_content message \<noteq> []
                then (case inline_tools (ol_content message) of
                        Some (calls, rest) \<Rightarrow> Inr \<lparr>r_content = rest, r_toolCalls = calls\<rparr>
                      | None \<Rightarrow> Inr \<lparr>r_content = ol_content message, r_toolCalls = []\<rparr>)
                else Inr \<lparr>r_content = [], r_toolCalls = []\<rparr>)))"

section \<open>The projection as the specification words it\<close>







text \<open>The ids of all \<open>ToolUse\<close> blocks of a history, in order.\<close>

definition all_tool_use_ids :: "message list \<Rightarrow> string list" where
  "all_tool_use_ids history = concat (map tool_use_ids history)"

text \<open>
  The summary of one tool turn, from its canonical blocks: a call has failed when the
  \<open>ToolResult\<close> block with its id is an error (a result is only looked up under a
  non-empty id). Counts and names (the non-empty ones) are in the order of the calls.
\<close>

definition use_failed :: "message \<Rightarrow> block \<Rightarrow> bool" where
  "use_failed u b =
     (tu_id b \<noteq> [] \<and>
      list_ex (\<lambda>r. is_ToolResult r \<and> tool_use_id r = tu_id b \<and> is_error r) (blocks_of (content u)))"


text \<open>What a view shows of a message: its id, its role and its content.\<close>

type_synonym view_entry = "msg_id \<times> role \<times> content"

definition entry :: "message \<Rightarrow> view_entry" where
  "entry msg = (msg_id msg, role msg, content msg)"





text \<open>
  What the map \<open>toolInfo\<close> holds of a call of a canonical history with distinct ids, and
  when the last message of a view takes a further summary.
\<close>

definition meta_of :: "message \<Rightarrow> block \<Rightarrow> tool_meta" where
  "meta_of u b = \<lparr>tm_name = tu_name b, tm_id = tu_id b, tm_isError = use_failed u b\<rparr>"







text \<open>
  Stored messages as \<open>sendMessage\<close> writes them (lines 1040-1105): a text message, the
  assistant message of a tool turn (its text, when there is one, then one \<open>ToolUse\<close> block
  per call) and the user message with the results.
\<close>

definition text_message :: "int \<Rightarrow> role \<Rightarrow> string \<Rightarrow> message" where
  "text_message i r t = (mk_message r (Str t))\<lparr>msg_id := NumId i\<rparr>"

definition calls_message :: "int \<Rightarrow> string \<Rightarrow> (string \<times> string) list \<Rightarrow> message" where
  "calls_message i t uses =
     (mk_message Assistant
        (Blocks ((if t \<noteq> [] then [TextBlock t False] else []) @
                 map (\<lambda>(c, n). ToolUse c n JNull) uses)))
     \<lparr>msg_id := NumId i, metadata := Some (call_ids_metadata (map fst uses))\<rparr>"

definition results_message :: "int \<Rightarrow> (string \<times> bool) list \<Rightarrow> message" where
  "results_message i rs =
     (mk_message User (Blocks (map (\<lambda>(c, e). ToolResult c ''out'' e []) rs)))
     \<lparr>msg_id := NumId i, metadata := Some (call_ids_metadata (map fst rs))\<rparr>"

text \<open>A history with three tool turns, and one in which two turns use the same call id.\<close>

definition three_turns :: "message list" where
  "three_turns =
     [text_message 1 User ''hi'',
      calls_message 2 [] [(''a'', ''read'')], results_message 3 [(''a'', False)],
      calls_message 4 [] [(''b'', ''write''), (''c'', ''del'')],
      results_message 5 [(''b'', True), (''c'', True)],
      calls_message 6 [] [(''d'', ''list'')], results_message 7 [(''d'', False)],
      text_message 8 Assistant ''done'']"


section \<open>The view on a store of objects\<close>

text \<open>
  To say which objects \<open>getHistoryView\<close> writes to, the messages are put in a store: an
  address is an index into the list of all message objects, \<open>conversationHistory\<close> is a
  list of addresses, and every assignment of lines 803-979 to a field of a message is a
  write at the address of that message. \<open>cloneMessage\<close> (lines 608-613,
  \<open>structuredClone\<close>) is a deep copy: a new object with the value of the old one that
  shares nothing with it, so a message with all it holds is one object of the store. The
  entries of \<open>toolInfo\<close>, the summaries and the arrays built on the way are new objects
  holding strings and numbers.
\<close>

type_synonym addr = nat

type_synonym objects = "message list"

definition values_at :: "objects \<Rightarrow> addr list \<Rightarrow> message list" where
  "values_at hp addrs = map (\<lambda>a. hp ! a) addrs"

definition cloneMessage :: "addr \<Rightarrow> objects \<Rightarrow> addr \<times> objects" where
  "cloneMessage a hp = (length hp, hp @ [hp ! a])"

text \<open>An assignment to fields of the object at an address.\<close>

definition assign :: "addr \<Rightarrow> (message \<Rightarrow> message) \<Rightarrow> objects \<Rightarrow> objects" where
  "assign a f hp = hp[a := f (hp ! a)]"

text \<open>\<open>abridged.push(this.cloneMessage(msg))\<close>\<close>

definition push_clone :: "addr \<Rightarrow> objects \<times> addr list \<Rightarrow> objects \<times> addr list" where
  "push_clone a st =
     (case st of (hp, abridged) \<Rightarrow>
        (case cloneMessage a hp of (c, hp1) \<Rightarrow> (hp1, abridged @ [c])))"

text \<open>Lines 955-961: the assignments to \<open>transformed\<close> before it is pushed.\<close>

definition settle :: "message \<Rightarrow> message" where
  "settle transformed =
     (let t1 = transformed\<lparr>hasNonSummaryText := Some (hasNonSummaryText transformed = Some True)\<rparr>
      in if has_toolSummary t1
         then (let t3 = t1\<lparr>hasNonSummaryText := Some False\<rparr>
               in (case (summaryToolIds t3, metadata t3) of
                     (Some ids, Some md) \<Rightarrow>
                       (if ids \<noteq> [] \<and> md_summaryToolIds md = None
                        then t3\<lparr>metadata := Some (md\<lparr>md_summaryToolIds := Some (uniq ids)\<rparr>)\<rparr>
                        else t3)
                   | _ \<Rightarrow> t3))
         else t1)"

text \<open>Lines 954-963, with \<open>transformed\<close> the object at \<open>t\<close>.\<close>

definition push_transformed_at :: "addr \<Rightarrow> objects \<times> addr list \<Rightarrow> objects \<times> addr list" where
  "push_transformed_at t st =
     (case st of (hp, abridged) \<Rightarrow>
        if blocks_of (content (hp ! t)) \<noteq> [] then (assign t settle hp, abridged @ [t])
        else (hp, abridged))"

text \<open>
  Lines 938-951: \<open>prev\<close> is the last object of \<open>abridged\<close>; the merge writes to it and
  pushes nothing.
\<close>

definition mergeOrPush_at ::
  "addr \<Rightarrow> summary_info \<Rightarrow> objects \<times> addr list \<Rightarrow> objects \<times> addr list" where
  "mergeOrPush_at t summaryMeta st =
     (case st of (hp, abridged) \<Rightarrow>
        if abridged = [] then push_transformed_at t (hp, abridged)
        else (let prev = last abridged
              in (case metadata (hp ! prev) of
                    Some pmd \<Rightarrow>
                      (case md_summary pmd of
                         Some prevInfo \<Rightarrow>
                           (if hasNonSummaryText (hp ! prev) = Some False
                            then (assign prev (\<lambda>p. merge_into_prev p pmd prevInfo summaryMeta) hp,
                                  abridged)
                            else push_transformed_at t (hp, abridged))
                       | None \<Rightarrow> push_transformed_at t (hp, abridged))
                  | None \<Rightarrow> push_transformed_at t (hp, abridged))))"

text \<open>Lines 907-919: one part of \<open>msg.content\<close>, with \<open>transformed\<close> the object at \<open>t\<close>.\<close>

definition transformPart_at ::
  "(string \<rightharpoonup> tool_meta) \<Rightarrow> addr \<Rightarrow> objects \<times> tool_meta list \<Rightarrow> block \<Rightarrow>
   objects \<times> tool_meta list" where
  "transformPart_at toolInfo t st part =
     (case st of (hp, pendingToolBatch) \<Rightarrow>
        (case transformPart toolInfo (hp ! t, pendingToolBatch) part of
           (transformed, pending) \<Rightarrow> (hp[t := transformed], pending)))"

text \<open>Lines 867-965: \<open>msg\<close> is the stored object at \<open>a\<close>, it is only read.\<close>

definition transformAssistant_at ::
  "(string \<rightharpoonup> tool_meta) \<Rightarrow> addr \<Rightarrow> objects \<times> addr list \<Rightarrow> objects \<times> addr list" where
  "transformAssistant_at toolInfo a st =
     (case st of (hp, abridged) \<Rightarrow>
        (case cloneMessage a hp of (t, hp1) \<Rightarrow>
           (let msg = hp1 ! a;
                hp2 = assign t
                        (\<lambda>v. v\<lparr>content := Blocks [], hasNonSummaryText := Some False,
                                summaryInfo := None,
                                summaryToolIds :=
                                  Some (case summaryToolIds msg of Some ids \<Rightarrow> ids | None \<Rightarrow> [])\<rparr>)
                        hp1
            in (case foldl (transformPart_at toolInfo t) (hp2, []) (blocks_of (content msg)) of
                  (hp3, pendingToolBatch) \<Rightarrow>
                    (let hp4 = assign t (appendBatch pendingToolBatch) hp3
                     in (case summaryInfo (hp4 ! t) of
                           None \<Rightarrow> push_transformed_at t (hp4, abridged)
                         | Some info \<Rightarrow>
                             (let summaryTexts = buildToolSummaryText info;
                                  hp5 = assign t
                                          (\<lambda>v. v\<lparr>content := Blocks (blocks_of (content v) @
                                                                    summary_blocks info)\<rparr>)
                                          hp4
                              in if hasNonSummaryText (hp5 ! t) \<noteq> Some True \<and> summaryTexts \<noteq> []
                                 then mergeOrPush_at t (cloneSummaryInfo info)
                                        (assign t (\<lambda>v. withSummaryMetadata v (cloneSummaryInfo info)) hp5,
                                         abridged)
                                 else push_transformed_at t (hp5, abridged))))))))"

text \<open>One round of the loop of lines 861-976, on the object at \<open>history[i]\<close>.\<close>

definition viewStep_at ::
  "(string \<rightharpoonup> tool_meta) \<Rightarrow> nat option \<Rightarrow> string list option \<Rightarrow> nat \<Rightarrow> addr \<Rightarrow>
   objects \<times> addr list \<Rightarrow> objects \<times> addr list" where
  "viewStep_at toolInfo lastToolMessageIndex lastToolUseIds i a st =
     (let msg = fst st ! a
      in if Some i = lastToolMessageIndex then push_clone a st
         else if role msg = Assistant \<and> \<not> is_Str (content msg)
         then transformAssistant_at toolInfo a st
         else if role msg = User \<and> \<not> is_Str (content msg) \<and> first_is_tool_result msg
         then (if isLastToolResult lastToolUseIds msg then push_clone a st else st)
         else push_clone a st)"

fun viewLoop_at ::
  "(string \<rightharpoonup> tool_meta) \<Rightarrow> nat option \<Rightarrow> string list option \<Rightarrow> nat \<Rightarrow> addr list \<Rightarrow>
   objects \<times> addr list \<Rightarrow> objects \<times> addr list" where
  "viewLoop_at toolInfo lastIdx lastIds i [] st = st"
| "viewLoop_at toolInfo lastIdx lastIds i (a # rest) st =
     viewLoop_at toolInfo lastIdx lastIds (Suc i) rest
       (viewStep_at toolInfo lastIdx lastIds i a st)"

text \<open>Lines 821-978; \<open>toolInfo\<close> and the last tool turn are read from the stored objects.\<close>

definition minimizeHistory_at :: "objects \<Rightarrow> addr list \<Rightarrow> objects \<times> addr list" where
  "minimizeHistory_at hp history =
     (let toolInfo = build_toolInfo (values_at hp history);
          lastToolMessageIndex = findLastToolInteractionIndex (values_at hp history);
          lastToolUseIds = (case lastToolMessageIndex of
                              None \<Rightarrow> None
                            | Some k \<Rightarrow> Some (tool_use_ids (hp ! (history ! k))))
      in viewLoop_at toolInfo lastToolMessageIndex lastToolUseIds 0 history (hp, []))"

text \<open>Lines 804-816: \<open>slice\<close> makes a new array of the same objects.\<close>

definition sliceHistoryByUserMessages_at :: "int \<Rightarrow> objects \<Rightarrow> addr list \<Rightarrow> addr list" where
  "sliceHistoryByUserMessages_at limit hp history =
     (if limit \<le> 0 then history
      else (case sliceScan (values_at hp history) limit 0 (length history) of
              Some i \<Rightarrow> drop i history
            | None \<Rightarrow> history))"

definition viewBase_at :: "int \<Rightarrow> objects \<Rightarrow> addr list \<Rightarrow> addr list" where
  "viewBase_at limit hp fullHistory =
     (let history = (if limit > 0
                     then sliceHistoryByUserMessages_at limit hp fullHistory
                     else fullHistory)
      in if limit > 0
         then (case findLastToolInteractionIndex (values_at hp fullHistory) of
                 None \<Rightarrow> history
               | Some lastToolIdx \<Rightarrow>
                   (let baseStartIdx = length fullHistory - length history
                    in if lastToolIdx < baseStartIdx then drop lastToolIdx fullHistory
                       else history))
         else history)"

text \<open>
  \<open>getHistoryView(minimizeTokens, limitMessages)\<close> on the store: the objects after the
  call and the addresses of the returned array.
\<close>

definition getHistoryView_at ::
  "bool \<Rightarrow> int \<Rightarrow> objects \<Rightarrow> addr list \<Rightarrow> objects \<times> addr list" where
  "getHistoryView_at minimize limit hp fullHistory =
     (let history = viewBase_at limit hp fullHistory
      in if \<not> minimize then foldl (\<lambda>st a. push_clone a st) (hp, []) history
         else minimizeHistory_at hp history)"

text \<open>
  What holds of the store \<open>hp\<close> and the array \<open>abridged\<close> during a call started on the
  objects \<open>hp0\<close>: the objects of \<open>hp0\<close> are as they were, and \<open>abridged\<close> holds distinct
  objects made since.
\<close>

definition view_inv :: "objects \<Rightarrow> objects \<Rightarrow> addr list \<Rightarrow> bool" where
  "view_inv hp0 hp abridged =
     (take (length hp0) hp = hp0 \<and> length hp0 \<le> length hp \<and> distinct abridged \<and>
      list_all (\<lambda>x. length hp0 \<le> x \<and> x < length hp) abridged)"

section \<open>Properties of the loop\<close>





section \<open>Numbers\<close>

lemma to_double_exact: "\<bar>n\<bar> \<le> 2 ^ 53 \<Longrightarrow> to_double n = Fin n"
  by (auto simp: to_double_def round53_def Let_def)

lemma increment_exact: "0 \<le> c \<Longrightarrow> c < 2 ^ 53 \<Longrightarrow> increment (Fin c) = Fin (c + 1)"
  by (simp add: to_double_exact)






section \<open>A batch of tool calls\<close>







lemma executeToolCalls_append:
  "executeToolCalls (calls1 @ calls2) ts w =
     (case executeToolCalls calls1 ts w of
        (Inl e, w1, e1) \<Rightarrow> (Inl e, w1, e1)
      | (Inr r1, w1, e1) \<Rightarrow>
          (case executeToolCalls calls2 ts w1 of
             (Inl e, w2, e2) \<Rightarrow> (Inl e, w2, e1 @ e2)
           | (Inr r2, w2, e2) \<Rightarrow> (Inr (r1 @ r2), w2, e1 @ e2)))"
  by (induction calls1 arbitrary: w) (auto split: prod.splits sum.splits)

lemma executeToolCalls_split:
  assumes "executeToolCalls pre ts w0 = (Inr rs1, w, e1)"
    and "executeToolCall c ts w = (Inr res, w', ev)"
    and "executeToolCalls post ts w' = (r2, w2, e2)"
  shows "executeToolCalls (pre @ c # post) ts w0 =
         (case r2 of Inl e \<Rightarrow> Inl e | Inr rs2 \<Rightarrow> Inr (rs1 @ res # rs2), w2, e1 @ ev @ e2)"
  using assms by (simp add: executeToolCalls_append split: sum.splits)



section \<open>One round of the loop\<close>






section \<open>The loop makes a run\<close>


section \<open>Properties of runs\<close>

lemma api_calls_append [simp]: "api_calls (xs @ ys) = api_calls xs + api_calls ys"
  by (simp add: api_calls_def)

lemma api_calls_simps [simp]:
  "api_calls [] = 0"
  "api_calls (CallAPI msgs a # evs) = Suc (api_calls evs)"
  "api_calls (RunHandler n args out # evs) = api_calls evs"
  "api_calls (RunSummary out # evs) = api_calls evs"
  by (simp_all add: api_calls_def)









lemma batch_events: "batch ts calls w r w' hs \<Longrightarrow> CallAPI ms ans \<notin> set hs"
  by (induction rule: batch.induct) auto

lemma run_calls_prefix:
  "run api ts k p w msgs seg evs \<Longrightarrow> CallAPI ms ans \<in> set evs \<Longrightarrow> prefix msgs ms"
proof (induction rule: run.induct)
  case (run_turn k p msgs resp p' a w bs w' hs u seg evs)
  from run_turn.prems batch_events[OF run_turn(5)]
  consider "ms = msgs" | "CallAPI ms ans \<in> set evs" by auto
  then show ?case
  proof cases
    case 1
    then show ?thesis by simp
  next
    case 2
    from run_turn.IH[OF 2] show ?thesis by (rule append_prefixD)
  qed
next
  case (run_given_up k p msgs resp p' a w w' hs)
  with batch_events[OF run_given_up(5)] show ?case by auto
qed auto

lemma run_first_call:
  "run api ts k p w msgs seg evs \<Longrightarrow> k \<noteq> 0 \<Longrightarrow>
   \<exists>rest. evs = CallAPI msgs (fst (api p msgs)) # rest"
  by (induction rule: run.induct) auto

section \<open>The loop returns\<close>



section \<open>Properties of sendMessage as a whole\<close>

lemma ensureHistoryMessageIds_frame [simp]:
  "trace (ensureHistoryMessageIds m) = trace m"
  "tools (ensureHistoryMessageIds m) = tools m"
  "provider (ensureHistoryMessageIds m) = provider m"
  "world (ensureHistoryMessageIds m) = world m"
  "pstate (ensureHistoryMessageIds m) = pstate m"
  "systemPrompt (ensureHistoryMessageIds m) = systemPrompt m"
  by (simp_all add: ensureHistoryMessageIds_def split: prod.splits)

lemma addMessage_frame [simp]:
  "trace (addMessage r c m) = trace m"
  "tools (addMessage r c m) = tools m"
  "provider (addMessage r c m) = provider m"
  "world (addMessage r c m) = world m"
  "pstate (addMessage r c m) = pstate m"
  "systemPrompt (addMessage r c m) = systemPrompt m"
  by (simp_all add: addMessage_def split: prod.splits)

lemma appendUserMessage_frame [simp]:
  "trace (appendUserMessage u opts m) = trace m"
  "tools (appendUserMessage u opts m) = tools m"
  "provider (appendUserMessage u opts m) = provider m"
  "world (appendUserMessage u opts m) = world m"
  "pstate (appendUserMessage u opts m) = pstate m"
  "systemPrompt (appendUserMessage u opts m) = systemPrompt m"
  by (simp_all add: appendUserMessage_def Let_def)










section \<open>The budget\<close>









section \<open>The projection keeps the ids\<close>

lemma appendBatch_id [simp]: "msg_id (appendBatch pending t) = msg_id t"
  by (simp add: appendBatch_def Let_def)

lemma transformPart_id: "msg_id (fst (transformPart ti st part)) = msg_id (fst st)"
  by (cases st; cases part) (simp_all add: Let_def)

lemma foldl_transformPart_id:
  "msg_id (fst (foldl (transformPart ti) st parts)) = msg_id (fst st)"
  by (induction parts arbitrary: st) (simp_all add: transformPart_id)

lemma push_transformed_ids:
  "map msg_id (push_transformed t ab) = map msg_id ab \<or>
   map msg_id (push_transformed t ab) = map msg_id ab @ [msg_id t]"
  by (auto simp: push_transformed_def Let_def split: option.splits prod.splits)

lemma merge_into_prev_id [simp]: "msg_id (merge_into_prev prev pmd prevInfo sm) = msg_id prev"
  by (simp add: merge_into_prev_def Let_def)

lemma merge_ids:
  "ab \<noteq> [] \<Longrightarrow> map msg_id (butlast ab) @ [msg_id (last ab)] = map msg_id ab"
  by (metis append_butlast_last_id list.simps(8,9) map_append)

lemma withSummaryMetadata_id [simp]: "msg_id (withSummaryMetadata t sm) = msg_id t"
  by (simp add: withSummaryMetadata_def Let_def)

lemma mergeOrPush_ids:
  "map msg_id (mergeOrPush t sm ab) = map msg_id ab \<or>
   map msg_id (mergeOrPush t sm ab) = map msg_id ab @ [msg_id t]"
  using push_transformed_ids[of t ab]
  by (auto simp: mergeOrPush_def Let_def merge_ids split: option.splits)

lemma transformAssistant_ids:
  "map msg_id (transformAssistant ti msg ab) = map msg_id ab \<or>
   map msg_id (transformAssistant ti msg ab) = map msg_id ab @ [msg_id msg]"
proof -
  define t0 where "t0 = msg\<lparr>content := Blocks [], hasNonSummaryText := Some False, summaryInfo := None,
                summaryToolIds := Some (case summaryToolIds msg of Some ids \<Rightarrow> ids | None \<Rightarrow> [])\<rparr>"
  obtain t1 pending where f: "foldl (transformPart ti) (t0, []) (blocks_of (content msg)) = (t1, pending)"
    by (metis surj_pair)
  have id1: "msg_id t1 = msg_id msg"
    using foldl_transformPart_id[of ti "(t0, [])" "blocks_of (content msg)"] f by (simp add: t0_def)
  define t2 where "t2 = appendBatch pending t1"
  have id2: "msg_id t2 = msg_id msg" by (simp add: t2_def id1)
  show ?thesis
  proof (cases "summaryInfo t2")
    case None
    then show ?thesis
      unfolding transformAssistant_def Let_def t0_def[symmetric] f prod.case t2_def[symmetric]
      using push_transformed_ids[of t2 ab] id2 by simp
  next
    case (Some info)
    define t3 where "t3 = t2\<lparr>content := Blocks (blocks_of (content t2) @ summary_blocks info)\<rparr>"
    have id3: "msg_id t3 = msg_id msg" by (simp add: t3_def id2)
    from Some show ?thesis
      unfolding transformAssistant_def Let_def t0_def[symmetric] f prod.case t2_def[symmetric]
      using push_transformed_ids[of t3 ab]
        mergeOrPush_ids[of "withSummaryMetadata t3 (cloneSummaryInfo info)" "cloneSummaryInfo info" ab]
        id3
      by (simp add: t3_def[symmetric])
  qed
qed

lemma viewStep_ids:
  "map msg_id (viewStep ti li ls i msg ab) = map msg_id ab \<or>
   map msg_id (viewStep ti li ls i msg ab) = map msg_id ab @ [msg_id msg]"
  using transformAssistant_ids[of ti msg ab] by (auto simp: viewStep_def)

lemma viewLoop_ids:
  "\<exists>ys. map msg_id (viewLoop ti li ls i rest ab) = map msg_id ab @ ys \<and> subseq ys (map msg_id rest)"
proof (induction rest arbitrary: i ab)
  case Nil
  then show ?case by simp
next
  case (Cons msg rest)
  from Cons.IH[of "Suc i" "viewStep ti li ls i msg ab"] obtain ys where
    ys: "map msg_id (viewLoop ti li ls (Suc i) rest (viewStep ti li ls i msg ab)) =
         map msg_id (viewStep ti li ls i msg ab) @ ys" "subseq ys (map msg_id rest)" by blast
  from viewStep_ids[of ti li ls i msg ab] show ?case
  proof
    assume "map msg_id (viewStep ti li ls i msg ab) = map msg_id ab"
    with ys show ?thesis by (auto intro: subseq_Cons')
  next
    assume "map msg_id (viewStep ti li ls i msg ab) = map msg_id ab @ [msg_id msg]"
    with ys show ?thesis by auto
  qed
qed

lemma minimizeHistory_ids: "subseq (map msg_id (minimizeHistory h)) (map msg_id h)"
  using viewLoop_ids[of "build_toolInfo h" "findLastToolInteractionIndex h" _ 0 h "[]"]
  by (auto simp: minimizeHistory_def Let_def)

lemma viewBase_suffix: "suffix (viewBase limit h) h"
  by (auto simp: viewBase_def sliceHistoryByUserMessages_def Let_def suffix_drop split: option.splits)

lemma getHistoryView_ids:
  "subseq (map msg_id (getHistoryView minimize limit h)) (map msg_id h)"
proof -
  have s: "subseq (map msg_id (viewBase limit h)) (map msg_id h)"
    using viewBase_suffix[of limit h] by (metis suffix_imp_subseq subseq_map)
  show ?thesis
    using s minimizeHistory_ids[of "viewBase limit h"]
    by (auto simp: getHistoryView_def Let_def intro: subseq_order.trans)
qed

section \<open>Properties of trimEnd\<close>

lemma ends_blank_last:
  "ends_blank s \<Longrightarrow> s \<noteq> [] \<and> last s \<in> set (map last white_space)"
proof -
  assume "ends_blank s"
  then obtain ws where ws: "ws \<in> set white_space" "suffix ws s" by (auto simp: ends_blank_def)
  from ws(2) obtain pre where s: "s = pre @ ws" by (auto simp: suffix_def)
  from white_space_nonempty[OF ws(1)] s ws(1) show ?thesis by auto
qed

lemma trimEnd_id: "\<not> ends_blank s \<Longrightarrow> trimEnd s = s"
proof -
  assume "\<not> ends_blank s"
  then have "find (\<lambda>ws. suffix ws s) white_space = None"
    by (auto simp: ends_blank_def find_None_iff)
  then show ?thesis by (subst trimEnd.simps) simp
qed

text \<open>
  In each encoding the first byte is not a continuation byte and the others are: none
  of them ends another.
\<close>

lemma white_space_bytes:
  "ws \<in> set white_space \<Longrightarrow>
   \<not> (128 \<le> (of_char (hd ws) :: nat) \<and> (of_char (hd ws) :: nat) < 192) \<and>
   (\<forall>c \<in> set (tl ws). 128 \<le> (of_char c :: nat) \<and> (of_char c :: nat) < 192)"
proof -
  have "list_all (\<lambda>ws. \<not> (128 \<le> (of_char (hd ws) :: nat) \<and> (of_char (hd ws) :: nat) < 192) \<and>
          (\<forall>c \<in> set (tl ws). 128 \<le> (of_char c :: nat) \<and> (of_char c :: nat) < 192)) white_space"
    by (simp add: white_space_def)
  then show "ws \<in> set white_space \<Longrightarrow>
   \<not> (128 \<le> (of_char (hd ws) :: nat) \<and> (of_char (hd ws) :: nat) < 192) \<and>
   (\<forall>c \<in> set (tl ws). 128 \<le> (of_char c :: nat) \<and> (of_char c :: nat) < 192)"
    unfolding list_all_iff by blast
qed

lemma white_space_suffix_free:
  assumes "x \<in> set white_space" "y \<in> set white_space" "suffix x y"
  shows "x = y"
proof -
  from assms(3) obtain pre where y: "y = pre @ x" by (auto simp: suffix_def)
  show ?thesis
  proof (cases pre)
    case Nil
    with y show ?thesis by simp
  next
    case (Cons c cs)
    from white_space_nonempty[OF assms(1)] have "hd x \<in> set x" by simp
    with y Cons have "hd x \<in> set (tl y)" by simp
    with white_space_bytes[OF assms(2)] white_space_bytes[OF assms(1)] show ?thesis by blast
  qed
qed

lemma trimEnd_step:
  assumes ws: "ws \<in> set white_space"
  shows "trimEnd (s @ ws) = trimEnd s"
proof -
  from ws have "\<exists>x \<in> set white_space. suffix x (s @ ws)" by (auto simp: suffix_def)
  then obtain x where f: "find (\<lambda>x. suffix x (s @ ws)) white_space = Some x"
    by (cases "find (\<lambda>x. suffix x (s @ ws)) white_space") (auto simp: find_None_iff)
  then have x: "x \<in> set white_space" "suffix x (s @ ws)" by (auto simp: find_Some_iff)
  have "suffix ws (s @ ws)" by (simp add: suffix_def)
  with x(2) have "suffix x ws \<or> suffix ws x"
    unfolding suffix_to_prefix by (rule prefix_same_cases)
  with white_space_suffix_free[OF x(1) ws] white_space_suffix_free[OF ws x(1)] have "x = ws" by blast
  with f show ?thesis by (subst trimEnd.simps) simp
qed

lemma trimEnd_blank: "blank b \<Longrightarrow> \<not> ends_blank t \<Longrightarrow> trimEnd (t @ b) = t"
proof (induction rule: blank.induct)
  case blank_empty
  then show ?case by (simp add: trimEnd_id)
next
  case (blank_more s ws)
  from trimEnd_step[OF blank_more(2), of "t @ s"] blank_more show ?case by simp
qed

lemma trimEnd_splits: "\<exists>b. s = trimEnd s @ b \<and> blank b \<and> \<not> ends_blank (trimEnd s)"
proof (induction s rule: trimEnd.induct)
  case (1 s)
  show ?case
  proof (cases "find (\<lambda>ws. suffix ws s) white_space")
    case None
    then have "\<not> ends_blank s" by (auto simp: ends_blank_def find_None_iff)
    with trimEnd_id[OF this] blank_empty show ?thesis by auto
  next
    case (Some ws)
    then have ws: "ws \<in> set white_space" "suffix ws s" by (auto simp: find_Some_iff)
    then obtain s' where s: "s = s' @ ws" by (auto simp: suffix_def)
    from 1[OF Some] s obtain b where b: "s' = trimEnd s' @ b" "blank b" "\<not> ends_blank (trimEnd s')"
      by auto
    have t: "trimEnd s = trimEnd s'" using s trimEnd_step[OF ws(1)] by simp
    from blank_more[OF b(2) ws(1)] b(1,3) s t show ?thesis by (metis append.assoc)
  qed
qed

text \<open>The string without its trailing white space is determined by these properties.\<close>

lemma trimEnd_unique:
  "s = t @ b \<Longrightarrow> blank b \<Longrightarrow> \<not> ends_blank t \<Longrightarrow> t = trimEnd s"
  by (simp add: trimEnd_blank)

lemma trimEnd_unavailable [simp]:
  "trimEnd ''[code_summary tool unavailable]'' = ''[code_summary tool unavailable]''"
  by (rule trimEnd_id) (auto dest!: ends_blank_last simp: white_space_def)

section \<open>The map toolInfo on a canonical history\<close>















section \<open>The transformation of a tool turn\<close>

lemma meta_of_simps [simp]:
  "tm_name (meta_of u b) = tu_name b" "tm_id (meta_of u b) = tu_id b"
  "tm_isError (meta_of u b) = use_failed u b"
  by (simp_all add: meta_of_def)





lemma add_info_zero [simp]:
  "add_info \<lparr>successCount = 0, failureCount = 0, successNames = [], failureNames = []\<rparr> b = b"
  by (simp add: add_info_def)















section \<open>The loop of the minimized view and the collapse of earlier turns\<close>









lemma findLastToolScan_Some:
  "findLastToolScan h n = Some k \<Longrightarrow>
   k < n \<and> is_tool_bearing (h ! k) \<and> (\<forall>j. k < j \<and> j < n \<longrightarrow> \<not> is_tool_bearing (h ! j))"
proof (induction n)
  case 0
  then show ?case by simp
next
  case (Suc n)
  show ?case
  proof (cases "is_tool_bearing (h ! n)")
    case True
    with Suc.prems show ?thesis by auto
  next
    case False
    with Suc.prems have "findLastToolScan h n = Some k" by simp
    from Suc.IH[OF this] False show ?thesis by (auto simp: less_Suc_eq)
  qed
qed







lemma all_tool_use_ids_append:
  "all_tool_use_ids (xs @ ys) = all_tool_use_ids xs @ all_tool_use_ids ys"
  by (simp add: all_tool_use_ids_def)








section \<open>The view on the store computes the view of the stored values\<close>

lemma push_transformed_settle:
  "push_transformed t ab = (if blocks_of (content t) \<noteq> [] then ab @ [settle t] else ab)"
  by (simp add: push_transformed_def settle_def Let_def)

lemma assign_new: "assign (length hp) f (hp @ [v]) = hp @ [f v]"
  by (simp add: assign_def)

lemma assign_old: "a < length hp \<Longrightarrow> assign a f (hp @ [v]) = assign a f hp @ [v]"
  by (simp add: assign_def list_update_append nth_append)

lemma length_assign [simp]: "length (assign a f hp) = length hp"
  by (simp add: assign_def)

lemma values_at_new:
  "list_all (\<lambda>x. x < length hp) ab \<Longrightarrow> values_at (hp @ [v]) ab = values_at hp ab"
  by (simp add: values_at_def list_all_iff nth_append)

lemma values_at_snoc: "values_at hp (ab @ [a]) = values_at hp ab @ [hp ! a]"
  by (simp add: values_at_def)

lemma view_inv_new:
  assumes "view_inv hp0 hp ab"
  shows "view_inv hp0 (hp @ [v]) ab" "view_inv hp0 (hp @ [v]) (ab @ [length hp])"
    "values_at (hp @ [v]) ab = values_at hp ab"
    "values_at (hp @ [v]) (ab @ [length hp]) = values_at hp ab @ [v]"
proof -
  from assms have a: "take (length hp0) hp = hp0" "length hp0 \<le> length hp" "distinct ab"
    "list_all (\<lambda>x. length hp0 \<le> x \<and> x < length hp) ab"
    by (simp_all add: view_inv_def)
  from a(4) have b: "list_all (\<lambda>x. x < length hp) ab" by (simp add: list_all_iff)
  show "view_inv hp0 (hp @ [v]) ab" using a by (auto simp: view_inv_def list_all_iff)
  show "view_inv hp0 (hp @ [v]) (ab @ [length hp])" using a by (auto simp: view_inv_def list_all_iff)
  show c: "values_at (hp @ [v]) ab = values_at hp ab" by (rule values_at_new[OF b])
  show "values_at (hp @ [v]) (ab @ [length hp]) = values_at hp ab @ [v]"
    using c by (simp add: values_at_snoc)
qed

lemma view_inv_old:
  assumes "view_inv hp0 hp ab" "a < length hp0"
  shows "hp ! a = hp0 ! a"
proof -
  from assms have "take (length hp0) hp ! a = hp0 ! a" by (simp add: view_inv_def)
  with assms(2) show ?thesis by simp
qed

lemma view_inv_merge:
  assumes i: "view_inv hp0 hp ab" and ne: "ab \<noteq> []"
  shows "view_inv hp0 (assign (last ab) f hp) ab"
    "values_at (assign (last ab) f hp) ab = butlast (values_at hp ab) @ [f (hp ! last ab)]"
proof -
  from i have a: "take (length hp0) hp = hp0" "length hp0 \<le> length hp" "distinct ab"
    "list_all (\<lambda>x. length hp0 \<le> x \<and> x < length hp) ab"
    by (simp_all add: view_inv_def)
  from ne obtain bs p where ab: "ab = bs @ [p]" by (metis append_butlast_last_id)
  from a(4) ab have p: "length hp0 \<le> p" "p < length hp" by simp_all
  from a(3) ab have np: "p \<notin> set bs" by simp
  show "view_inv hp0 (assign (last ab) f hp) ab"
    using a p ab by (simp add: view_inv_def assign_def)
  have "values_at (assign p f hp) bs = values_at hp bs"
    using np by (auto simp: values_at_def assign_def) (metis nth_list_update_neq)
  then show "values_at (assign (last ab) f hp) ab = butlast (values_at hp ab) @ [f (hp ! last ab)]"
    using ab p by (simp add: values_at_def assign_def)
qed

lemma push_clone_sim:
  assumes "view_inv hp0 hp ab" "a < length hp0"
  shows "\<exists>hp' ab'. push_clone a (hp, ab) = (hp', ab') \<and> view_inv hp0 hp' ab' \<and>
           values_at hp' ab' = values_at hp ab @ [hp0 ! a]"
  using view_inv_new(2,4)[OF assms(1), of "hp ! a"] view_inv_old[OF assms]
  by (simp add: push_clone_def cloneMessage_def)

lemma push_transformed_sim:
  assumes "view_inv hp0 hp ab"
  shows "\<exists>hp' ab'. push_transformed_at (length hp) (hp @ [v], ab) = (hp', ab') \<and>
           view_inv hp0 hp' ab' \<and> values_at hp' ab' = push_transformed v (values_at hp ab)"
proof (cases "blocks_of (content v) = []")
  case True
  with view_inv_new(1,3)[OF assms, of v] show ?thesis
    by (simp add: push_transformed_at_def push_transformed_settle)
next
  case False
  with view_inv_new(2,4)[OF assms, of "settle v"] show ?thesis
    by (simp add: push_transformed_at_def push_transformed_settle assign_new)
qed

lemma mergeOrPush_sim:
  assumes i: "view_inv hp0 hp ab"
  shows "\<exists>hp' ab'. mergeOrPush_at (length hp) sm (hp @ [v], ab) = (hp', ab') \<and>
           view_inv hp0 hp' ab' \<and> values_at hp' ab' = mergeOrPush v sm (values_at hp ab)"
proof (cases "ab = []")
  case True
  with push_transformed_sim[OF i, of v] show ?thesis
    by (simp add: mergeOrPush_at_def mergeOrPush_def values_at_def)
next
  case False
  from i have a: "list_all (\<lambda>x. length hp0 \<le> x \<and> x < length hp) ab" by (simp add: view_inv_def)
  with False have lt: "last ab < length hp" by (simp add: list_all_iff)
  then have pv: "(hp @ [v]) ! last ab = hp ! last ab" by (simp add: nth_append)
  have lv: "last (values_at hp ab) = hp ! last ab" using False by (simp add: values_at_def last_map)
  have ne: "values_at hp ab \<noteq> []" using False by (simp add: values_at_def)
  show ?thesis
  proof (cases "\<exists>pmd prevInfo. metadata (hp ! last ab) = Some pmd \<and> md_summary pmd = Some prevInfo \<and>
                  hasNonSummaryText (hp ! last ab) = Some False")
    case True
    then obtain pmd prevInfo where m: "metadata (hp ! last ab) = Some pmd"
      "md_summary pmd = Some prevInfo" "hasNonSummaryText (hp ! last ab) = Some False" by blast
    let ?f = "\<lambda>p. merge_into_prev p pmd prevInfo sm"
    have l: "mergeOrPush_at (length hp) sm (hp @ [v], ab) = (assign (last ab) ?f hp @ [v], ab)"
      using False m pv lt by (simp add: mergeOrPush_at_def Let_def assign_old)
    have r: "mergeOrPush v sm (values_at hp ab) =
             butlast (values_at hp ab) @ [?f (hp ! last ab)]"
      using ne m lv by (simp add: mergeOrPush_def Let_def)
    from view_inv_merge[OF i False, of ?f] have
      "view_inv hp0 (assign (last ab) ?f hp) ab"
      "values_at (assign (last ab) ?f hp) ab = butlast (values_at hp ab) @ [?f (hp ! last ab)]"
      by simp_all
    with view_inv_new(1,3)[of hp0 "assign (last ab) ?f hp" ab v] l r show ?thesis by simp
  next
    case no: False
    have l: "mergeOrPush_at (length hp) sm (hp @ [v], ab) = push_transformed_at (length hp) (hp @ [v], ab)"
      using False no pv by (auto simp: mergeOrPush_at_def Let_def split: option.splits)
    have r: "mergeOrPush v sm (values_at hp ab) = push_transformed v (values_at hp ab)"
      using ne no lv by (auto simp: mergeOrPush_def Let_def split: option.splits)
    from push_transformed_sim[OF i, of v] l r show ?thesis by simp
  qed
qed

lemma foldl_transformPart_at:
  "foldl (transformPart_at ti (length hp)) (hp @ [v], pend) parts =
   (hp @ [fst (foldl (transformPart ti) (v, pend) parts)],
    snd (foldl (transformPart ti) (v, pend) parts))"
proof (induction parts arbitrary: v pend)
  case Nil
  then show ?case by simp
next
  case (Cons p ps)
  obtain v1 pend1 where s: "transformPart ti (v, pend) p = (v1, pend1)" by (cases "transformPart ti (v, pend) p")
  then have "transformPart_at ti (length hp) (hp @ [v], pend) p = (hp @ [v1], pend1)"
    by (simp add: transformPart_at_def)
  with Cons[of v1 pend1] s show ?case by simp
qed

lemma transformAssistant_sim:
  assumes i: "view_inv hp0 hp ab" and a: "a < length hp0"
  shows "\<exists>hp' ab'. transformAssistant_at ti a (hp, ab) = (hp', ab') \<and> view_inv hp0 hp' ab' \<and>
           values_at hp' ab' = transformAssistant ti (hp0 ! a) (values_at hp ab)"
proof -
  let ?msg = "hp0 ! a"
  from i a have al: "a < length hp" by (simp add: view_inv_def)
  have m: "hp ! a = ?msg" by (rule view_inv_old[OF i a])
  have m1: "(hp @ [?msg]) ! a = ?msg" using al m by (simp add: nth_append)
  let ?t0 = "?msg\<lparr>content := Blocks [], hasNonSummaryText := Some False, summaryInfo := None,
                summaryToolIds := Some (case summaryToolIds ?msg of Some ids \<Rightarrow> ids | None \<Rightarrow> [])\<rparr>"
  obtain t1 pend where f: "foldl (transformPart ti) (?t0, []) (blocks_of (content ?msg)) = (t1, pend)"
    by (cases "foldl (transformPart ti) (?t0, []) (blocks_of (content ?msg))")
  let ?t2 = "appendBatch pend t1"
  have fa: "foldl (transformPart_at ti (length hp)) (hp @ [?t0], []) (blocks_of (content ?msg)) =
            (hp @ [t1], pend)"
    using f by (simp add: foldl_transformPart_at)
  show ?thesis
  proof (cases "summaryInfo ?t2")
    case None
    have l: "transformAssistant_at ti a (hp, ab) = push_transformed_at (length hp) (hp @ [?t2], ab)"
      using None
      by (simp add: transformAssistant_at_def cloneMessage_def Let_def m m1 assign_new fa)
    have r: "transformAssistant ti ?msg (values_at hp ab) = push_transformed ?t2 (values_at hp ab)"
      using None by (simp add: transformAssistant_def Let_def f)
    from push_transformed_sim[OF i, of ?t2] l r show ?thesis by simp
  next
    case (Some info)
    let ?t3 = "?t2\<lparr>content := Blocks (blocks_of (content ?t2) @ summary_blocks info)\<rparr>"
    show ?thesis
    proof (cases "hasNonSummaryText ?t3 \<noteq> Some True \<and> buildToolSummaryText info \<noteq> []")
      case True
      let ?t4 = "withSummaryMetadata ?t3 (cloneSummaryInfo info)"
      have l: "transformAssistant_at ti a (hp, ab) =
               mergeOrPush_at (length hp) (cloneSummaryInfo info) (hp @ [?t4], ab)"
        using Some True
        by (simp add: transformAssistant_at_def cloneMessage_def Let_def m m1 assign_new fa)
      have r: "transformAssistant ti ?msg (values_at hp ab) =
               mergeOrPush ?t4 (cloneSummaryInfo info) (values_at hp ab)"
        using Some True by (simp add: transformAssistant_def Let_def f)
      from mergeOrPush_sim[OF i, of "cloneSummaryInfo info" ?t4] l r show ?thesis by simp
    next
      case False
      have l: "transformAssistant_at ti a (hp, ab) = push_transformed_at (length hp) (hp @ [?t3], ab)"
        using Some False
        by (auto simp: transformAssistant_at_def cloneMessage_def Let_def m m1 assign_new fa)
      have r: "transformAssistant ti ?msg (values_at hp ab) = push_transformed ?t3 (values_at hp ab)"
        using Some False by (auto simp: transformAssistant_def Let_def f)
      from push_transformed_sim[OF i, of ?t3] l r show ?thesis by simp
    qed
  qed
qed

lemma viewStep_sim:
  assumes i: "view_inv hp0 hp ab" and a: "a < length hp0"
  shows "\<exists>hp' ab'. viewStep_at ti li lids n a (hp, ab) = (hp', ab') \<and> view_inv hp0 hp' ab' \<and>
           values_at hp' ab' = viewStep ti li lids n (hp0 ! a) (values_at hp ab)"
  using push_clone_sim[OF i a] transformAssistant_sim[OF i a, of ti] view_inv_old[OF i a] i
  by (auto simp: viewStep_at_def viewStep_def Let_def)

lemma viewLoop_sim:
  assumes "view_inv hp0 hp ab" "list_all (\<lambda>a. a < length hp0) addrs"
  shows "\<exists>hp' ab'. viewLoop_at ti li lids n addrs (hp, ab) = (hp', ab') \<and> view_inv hp0 hp' ab' \<and>
           values_at hp' ab' = viewLoop ti li lids n (values_at hp0 addrs) (values_at hp ab)"
  using assms
proof (induction addrs arbitrary: n hp ab)
  case Nil
  then show ?case by (simp add: values_at_def)
next
  case (Cons a addrs)
  from Cons.prems have a: "a < length hp0" and r: "list_all (\<lambda>a. a < length hp0) addrs" by simp_all
  from viewStep_sim[OF Cons.prems(1) a, of ti li lids n] obtain hp1 ab1 where
    s: "viewStep_at ti li lids n a (hp, ab) = (hp1, ab1)" "view_inv hp0 hp1 ab1"
       "values_at hp1 ab1 = viewStep ti li lids n (hp0 ! a) (values_at hp ab)" by blast
  from Cons.IH[OF s(2) r, of "Suc n"] s(1,3) show ?case by (simp add: values_at_def)
qed

lemma view_inv_init: "view_inv hp hp []"
  by (simp add: view_inv_def)

lemma values_at_drop: "values_at hp (drop i xs) = drop i (values_at hp xs)"
  by (simp add: values_at_def drop_map)

lemma length_values_at [simp]: "length (values_at hp xs) = length xs"
  by (simp add: values_at_def)

lemma sliceHistoryByUserMessages_at_values:
  "values_at hp (sliceHistoryByUserMessages_at limit hp full) =
   sliceHistoryByUserMessages limit (values_at hp full)"
  by (simp add: sliceHistoryByUserMessages_at_def sliceHistoryByUserMessages_def values_at_drop
           split: option.splits)

lemma length_slice_at:
  "length (sliceHistoryByUserMessages_at limit hp full) =
   length (sliceHistoryByUserMessages limit (values_at hp full))"
  using sliceHistoryByUserMessages_at_values[of hp limit full] by (metis length_values_at)

lemma viewBase_at_values:
  "values_at hp (viewBase_at limit hp full) = viewBase limit (values_at hp full)"
  by (simp add: viewBase_at_def viewBase_def Let_def values_at_drop
                sliceHistoryByUserMessages_at_values length_slice_at
           split: option.splits)

lemma viewBase_at_suffix: "suffix (viewBase_at limit hp full) full"
  by (auto simp: viewBase_at_def sliceHistoryByUserMessages_at_def Let_def suffix_drop
           split: option.splits)

lemma viewBase_at_addrs:
  "list_all (\<lambda>a. a < n) full \<Longrightarrow> list_all (\<lambda>a. a < n) (viewBase_at limit hp full)"
  using viewBase_at_suffix[of limit hp full] by (auto simp: list_all_iff dest: set_mono_suffix)

lemma minimizeHistory_sim:
  assumes "list_all (\<lambda>a. a < length hp) addrs"
  shows "\<exists>hp' ab'. minimizeHistory_at hp addrs = (hp', ab') \<and> view_inv hp hp' ab' \<and>
           values_at hp' ab' = minimizeHistory (values_at hp addrs)"
proof -
  let ?vs = "values_at hp addrs"
  have l: "(case findLastToolInteractionIndex ?vs of None \<Rightarrow> None
            | Some k \<Rightarrow> Some (tool_use_ids (hp ! (addrs ! k)))) =
           (case findLastToolInteractionIndex ?vs of None \<Rightarrow> None
            | Some k \<Rightarrow> Some (tool_use_ids (?vs ! k)))"
  proof (cases "findLastToolInteractionIndex ?vs")
    case None
    then show ?thesis by simp
  next
    case (Some k)
    from findLastToolScan_Some[OF Some[unfolded findLastToolInteractionIndex_def]]
    have "k < length addrs" by simp
    with Some show ?thesis by (simp add: values_at_def)
  qed
  from viewLoop_sim[OF view_inv_init assms, of "build_toolInfo ?vs" "findLastToolInteractionIndex ?vs"
      "case findLastToolInteractionIndex ?vs of None \<Rightarrow> None
       | Some k \<Rightarrow> Some (tool_use_ids (?vs ! k))" 0]
  show ?thesis unfolding minimizeHistory_at_def minimizeHistory_def Let_def l
    by (simp add: values_at_def)
qed

lemma clones_sim:
  assumes "view_inv hp0 hp ab" "list_all (\<lambda>a. a < length hp0) addrs"
  shows "\<exists>hp' ab'. foldl (\<lambda>st a. push_clone a st) (hp, ab) addrs = (hp', ab') \<and>
           view_inv hp0 hp' ab' \<and> values_at hp' ab' = values_at hp ab @ values_at hp0 addrs"
  using assms
proof (induction addrs arbitrary: hp ab)
  case Nil
  then show ?case by (simp add: values_at_def)
next
  case (Cons a addrs)
  from Cons.prems have a: "a < length hp0" and r: "list_all (\<lambda>a. a < length hp0) addrs" by simp_all
  from push_clone_sim[OF Cons.prems(1) a] obtain hp1 ab1 where
    s: "push_clone a (hp, ab) = (hp1, ab1)" "view_inv hp0 hp1 ab1"
       "values_at hp1 ab1 = values_at hp ab @ [hp0 ! a]" by blast
  from Cons.IH[OF s(2) r] s(1,3) show ?case by (simp add: values_at_def)
qed

text \<open>The view on the store: what it returns and what it leaves as it was.\<close>

lemma getHistoryView_sim:
  assumes "list_all (\<lambda>a. a < length hp) full"
  shows "\<exists>hp' view. getHistoryView_at mt limit hp full = (hp', view) \<and> view_inv hp hp' view \<and>
           values_at hp' view = getHistoryView mt limit (values_at hp full)"
proof -
  note b = viewBase_at_addrs[OF assms, of limit hp]
  show ?thesis
  proof (cases mt)
    case True
    with minimizeHistory_sim[OF b] show ?thesis
      by (simp add: getHistoryView_at_def getHistoryView_def viewBase_at_values)
  next
    case False
    from clones_sim[OF view_inv_init b] obtain hp' view where
      "foldl (\<lambda>st a. push_clone a st) (hp, []) (viewBase_at limit hp full) = (hp', view)"
      "view_inv hp hp' view"
      "values_at hp' view = values_at hp [] @ values_at hp (viewBase_at limit hp full)" by blast
    with False show ?thesis
      by (simp add: getHistoryView_at_def getHistoryView_def viewBase_at_values)
         (simp add: values_at_def)
  qed
qed

lemma view_inv_frame:
  assumes "view_inv hp0 hp ab"
  shows "\<forall>a<length hp0. hp ! a = hp0 ! a" "list_all (\<lambda>a. a < length hp0) addrs \<Longrightarrow> values_at hp addrs = values_at hp0 addrs"
    "list_all (\<lambda>a. a < length hp0) addrs \<Longrightarrow> list_all (\<lambda>a. a < length hp) addrs"
    "list_all (\<lambda>x. length hp0 \<le> x \<and> x < length hp) ab"
proof -
  show f: "\<forall>a<length hp0. hp ! a = hp0 ! a" using view_inv_old[OF assms] by blast
  show "list_all (\<lambda>a. a < length hp0) addrs \<Longrightarrow> values_at hp addrs = values_at hp0 addrs"
    using f by (simp add: values_at_def list_all_iff)
  show "list_all (\<lambda>a. a < length hp0) addrs \<Longrightarrow> list_all (\<lambda>a. a < length hp) addrs"
    using assms by (auto simp: view_inv_def list_all_iff)
  show "list_all (\<lambda>x. length hp0 \<le> x \<and> x < length hp) ab" using assms by (simp add: view_inv_def)
qed

section \<open>Properties: the end-to-end scenario\<close>

lemmas send_defs =
  sendMessage_def prepareSend_def appendUserMessage_def isContinuation_def registerTool_def registerProvider_def new_manager_def default_options_def
  ensureHistoryMessageIds_def addMessage_def ensureMessageId_def freshId_def to_double_exact mk_message_def
  outboundMessages_def getHistoryView_def viewBase_def augmentMessages_def
  findLatestUserTextMessageIndex_def is_user_text_def buildAugmentedPrompt_def codeSummaryText_def finalSummary_def find_tool_def
  MAX_ITERATIONS_def initial_vars_def toolIteration_def next_iteration_def
  finalIteration_def executeToolCall_def tool_use_blocks_def tool_result_blocks_def
  call_ids_metadata_def of_response_def finishSend_def Let_def api_calls_def echo_def

text \<open>
  Claim C1. A fresh manager with a provider and the tool \<open>echo\<close> registered is sent
  \<open>"hi"\<close>. The provider's first response is the single tool call \<open>echo("hi")\<close> without
  text, its second response the text \<open>"done"\<close> without tool calls (whatever message list
  it is given). Then \<open>sendMessage\<close> returns, and afterwards the history is exactly: the
  user message \<open>"hi"\<close>, an assistant message with the one \<open>ToolUse\<close> block, a user message
  with the one \<open>ToolResult\<close> block of content \<open>"hi"\<close>, and the assistant message \<open>"done"\<close>;
  the provider was called exactly twice.
\<close>

theorem C1_echo_round_trip:
  fixes api :: "'p callAPI" and w :: 'w
  assumes first: "\<forall>msgs. api p0 msgs =
             (Inr \<lparr>r_content = [], r_toolCalls = [\<lparr>call_id = i, call_name = ''echo'',
                                                   call_arguments = JString ''hi''\<rparr>]\<rparr>, p1)"
      and second: "\<forall>msgs. api p1 msgs = (Inr \<lparr>r_content = ''done'', r_toolCalls = []\<rparr>, p2)"
  shows "\<exists>res m'.
           sendMessage ''hi'' default_options
              (registerTool ''echo'' echo (registerProvider api (new_manager w p0))) = Some (Inr res, m') \<and>
           map (\<lambda>x. (role x, content x)) (conversationHistory m') =
             [(User, Str ''hi''),
              (Assistant, Blocks [ToolUse i ''echo'' (JString ''hi'')]),
              (User, Blocks [ToolResult i ''hi'' False []]),
              (Assistant, Str ''done'')] \<and>
           api_calls (trace m') = 2"
  using first second
  by (simp add: send_defs sendLoop.simps)

theorem C1_echo_round_trip_witness:
  "\<exists>res m'.
     sendMessage ''hi'' default_options
        (registerTool ''echo'' echo (registerProvider stub_api (new_manager ()
           [\<lparr>r_content = [], r_toolCalls = [\<lparr>call_id = ''call_1'', call_name = ''echo'',
                                                call_arguments = JString ''hi''\<rparr>]\<rparr>,
            \<lparr>r_content = ''done'', r_toolCalls = []\<rparr>]))) = Some (Inr res, m') \<and>
     map (\<lambda>x. (role x, content x)) (conversationHistory m') =
       [(User, Str ''hi''),
        (Assistant, Blocks [ToolUse ''call_1'' ''echo'' (JString ''hi'')]),
        (User, Blocks [ToolResult ''call_1'' ''hi'' False []]),
        (Assistant, Str ''done'')] \<and>
     api_calls (trace m') = 2"
proof -
  have h1: "\<forall>msgs. stub_api
              [\<lparr>r_content = [], r_toolCalls = [\<lparr>call_id = ''call_1'', call_name = ''echo'',
                                                   call_arguments = JString ''hi''\<rparr>]\<rparr>,
               \<lparr>r_content = ''done'', r_toolCalls = []\<rparr>] msgs =
            (Inr \<lparr>r_content = [], r_toolCalls = [\<lparr>call_id = ''call_1'', call_name = ''echo'',
                                                   call_arguments = JString ''hi''\<rparr>]\<rparr>,
             [\<lparr>r_content = ''done'', r_toolCalls = []\<rparr>])"
    by (simp add: stub_api_def)
  have h2: "\<forall>msgs. stub_api [\<lparr>r_content = ''done'', r_toolCalls = []\<rparr>] msgs =
            (Inr \<lparr>r_content = ''done'', r_toolCalls = []\<rparr>, [])"
    by (simp add: stub_api_def)
  show ?thesis
    by (rule C1_echo_round_trip [OF h1 h2])
qed

section \<open>Properties: the iteration budget\<close>

lemma demo_manager_simps [simp]:
  "provider demo_manager = Some loop_api"
  "trace demo_manager = []"
  "tools demo_manager = [\<lparr>tool_name = ''echo'', handler = echo\<rparr>]"
  by (simp_all add: demo_manager_def registerTool_def registerProvider_def new_manager_def)






section \<open>The preparation keeps the pairing\<close>





section \<open>Properties: tool turns are paired\<close>

lemma scripted_manager_simps [simp]:
  "provider (scripted_manager script) = Some stub_api"
  "tools (scripted_manager script) =
     [\<lparr>tool_name = ''echo'', handler = noting ''echo''\<rparr>,
      \<lparr>tool_name = ''boom'', handler = failing ''boom'' ''boom''\<rparr>,
      \<lparr>tool_name = ''void'', handler = rejecting ''void''\<rparr>]"
  "conversationHistory (scripted_manager script) = []"
  "world (scripted_manager script) = []"
  "pstate (scripted_manager script) = script"
  "trace (scripted_manager script) = []"
  by (simp_all add: scripted_manager_def registerTool_def registerProvider_def new_manager_def)





section \<open>Properties: malformed provider responses\<close>

text \<open>
  Claim C7 at a body that lacks the field the adapter reads. The Gemini and Ollama
  adapters return the empty result; the Claude adapter (no \<open>content\<close>) and the OpenAI
  adapter (no \<open>choices\<close>) throw a \<open>TypeError\<close> instead. The Gemini adapter returns a
  result on every body.
\<close>

theorem C7_missing_field:
  "ClaudeProvider_parseResponse \<lparr>claude_content = None\<rparr> =
     Inl ''TypeError: response.content is not iterable''
   \<and> OpenAIProvider_parseResponse JSON_parse \<lparr>oa_choices = None\<rparr> =
     Inl ''TypeError: cannot read properties of undefined (reading 0)''
   \<and> GeminiProvider_parseResponse randomUUID \<lparr>gm_candidates = None\<rparr> = Inr empty_result
   \<and> OllamaProvider_parseResponse JSON_parse randomUUID inline_tools \<lparr>ol_message = None\<rparr> =
     Inr empty_result
   \<and> (\<exists>result. GeminiProvider_parseResponse randomUUID body = Inr result)"
  by (auto simp: ClaudeProvider_parseResponse_def OpenAIProvider_parseResponse_def
      GeminiProvider_parseResponse_def OllamaProvider_parseResponse_def
      split: option.splits list.splits)

section \<open>Properties: the minimized view\<close>




section \<open>Properties: the view leaves the store as it is\<close>

text \<open>
  Claim C5. Let the stored conversation be objects of the store \<open>hp\<close>. A call
  \<open>getHistoryView(minimizeTokens, limit)\<close> changes no object that existed before it, so
  the messages of \<open>conversationHistory\<close> are after the call what they were before; the
  messages it returns are objects made during the call (the clones and what was written
  to them), and their values are the view of the values of the stored messages, by the
  function \<open>getHistoryView\<close> of the stored values alone. A second call on the store
  the first call left changes nothing of what existed before it, the messages returned by
  the first call included, and returns messages with the same values as the first: it
  computes them from the stored messages again and reads nothing the first call made.
  This holds for every history, the canonical ones among them.
\<close>

theorem C5_view_leaves_store:
  assumes "list_all (\<lambda>a. a < length hp) conversation"
  shows "(case getHistoryView_at minimize limit hp conversation of
            (hp1, view1) \<Rightarrow>
              (\<forall>a<length hp. hp1 ! a = hp ! a) \<and>
              values_at hp1 conversation = values_at hp conversation \<and>
              list_all (\<lambda>a. length hp \<le> a \<and> a < length hp1) view1 \<and>
              values_at hp1 view1 = getHistoryView minimize limit (values_at hp conversation) \<and>
              (case getHistoryView_at minimize limit hp1 conversation of
                 (hp2, view2) \<Rightarrow>
                   (\<forall>a<length hp1. hp2 ! a = hp1 ! a) \<and>
                   values_at hp2 view2 = values_at hp1 view1))"
proof -
  from getHistoryView_sim[OF assms, of minimize limit] obtain hp1 view1 where
    1: "getHistoryView_at minimize limit hp conversation = (hp1, view1)" "view_inv hp hp1 view1"
       "values_at hp1 view1 = getHistoryView minimize limit (values_at hp conversation)" by blast
  note f1 = view_inv_frame[OF 1(2)]
  from f1(3)[OF assms] have a1: "list_all (\<lambda>a. a < length hp1) conversation" .
  from getHistoryView_sim[OF a1, of minimize limit] obtain hp2 view2 where
    2: "getHistoryView_at minimize limit hp1 conversation = (hp2, view2)" "view_inv hp1 hp2 view2"
       "values_at hp2 view2 = getHistoryView minimize limit (values_at hp1 conversation)" by blast
  note f2 = view_inv_frame[OF 2(2)]
  from 1 2 f1(1,4) f1(2)[OF assms] f2(1) show ?thesis by simp
qed

theorem C5_view_leaves_store_witness:
  "list_all (\<lambda>a. a < length three_turns) [0..<8] \<and>
   take 8 (fst (getHistoryView_at True 0 three_turns [0..<8])) = three_turns \<and>
   snd (getHistoryView_at True 0 three_turns [0..<8]) = [8, 9, 11, 12, 13] \<and>
   map entry (values_at (fst (getHistoryView_at True 0 three_turns [0..<8]))
                        (snd (getHistoryView_at True 0 three_turns [0..<8]))) =
     [(NumId 1, User, Str ''hi''),
      (NumId 2, Assistant,
       Blocks [TextBlock ''Successfully called tool read'' True,
               TextBlock ''Failed 2 tools (write, del)'' True]),
      (NumId 6, Assistant, Blocks [ToolUse ''d'' ''list'' JNull]),
      (NumId 7, User, Blocks [ToolResult ''d'' ''out'' False []]),
      (NumId 8, Assistant, Str ''done'')]"
proof -
  have h: "list_all (\<lambda>a. a < length three_turns) [0..<8]" by code_simp
  obtain hp1 view1 where r: "getHistoryView_at True 0 three_turns [0..<8] = (hp1, view1)"
    by (cases "getHistoryView_at True 0 three_turns [0..<8]")
  from C5_view_leaves_store[OF h, of True 0] r
  have e: "values_at hp1 view1 = getHistoryView True 0 (values_at three_turns [0..<8])" by simp
  have g: "map entry (getHistoryView True 0 (values_at three_turns [0..<8])) =
     [(NumId 1, User, Str ''hi''),
      (NumId 2, Assistant,
       Blocks [TextBlock ''Successfully called tool read'' True,
               TextBlock ''Failed 2 tools (write, del)'' True]),
      (NumId 6, Assistant, Blocks [ToolUse ''d'' ''list'' JNull]),
      (NumId 7, User, Blocks [ToolResult ''d'' ''out'' False []]),
      (NumId 8, Assistant, Str ''done'')]"
    by code_simp
  have a: "take 8 (fst (getHistoryView_at True 0 three_turns [0..<8])) = three_turns"
    by code_simp
  have b: "snd (getHistoryView_at True 0 three_turns [0..<8]) = [8, 9, 11, 12, 13]"
    by code_simp
  from e g r a b h show ?thesis by simp
qed

end
